theory Spec2Isabelle
  imports Complex_Main "HOL-Library.Multiset"
begin

text \<open>
  A model of the journaling server's core: the keyword fallback analyzer, the AI
  analysis client, the storage operations with the statistics recomputation, the routes
  that create, edit and delete journal entries, and the weekly insight route. The
  database, the clock, the identifiers the database draws and the provider's answers are
  explicit arguments; every function returns the database it leaves behind.
\<close>

section \<open>Fallback analyzer (server/fallbacks.ts)\<close>

text \<open>
  JavaScript strings are modelled as \<^typ>\<open>string\<close>. \<open>String.prototype.toLowerCase\<close> is
  modelled on the ASCII letters \<open>A\<close> .. \<open>Z\<close> (codes 65 .. 90); every other character is
  left as it is.
\<close>

definition toLowerChar :: "char \<Rightarrow> char" where
  "toLowerChar c =
     (let n = (of_char c :: nat) in if 65 \<le> n \<and> n \<le> 90 then char_of (n + 32) else c)"

definition toLowerCase :: "string \<Rightarrow> string" where
  "toLowerCase s = map toLowerChar s"

text \<open>\<open>text.startsWith(w)\<close> and \<open>text.includes(w)\<close>: substring containment.\<close>

fun startsWith :: "string \<Rightarrow> string \<Rightarrow> bool" where
  "startsWith _ [] = True"
| "startsWith [] (w # ws) = False"
| "startsWith (c # cs) (w # ws) = (c = w \<and> startsWith cs ws)"

fun includesStr :: "string \<Rightarrow> string \<Rightarrow> bool" where
  "includesStr [] w = startsWith [] w"
| "includesStr (c # cs) w = (startsWith (c # cs) w \<or> includesStr cs w)"

definition positiveWords :: "string list" where
  "positiveWords = [''happy'', ''excited'', ''good'', ''great'', ''amazing'', ''wonderful'',
     ''love'', ''joy'', ''grateful'', ''blessed'', ''awesome'', ''fantastic'', ''pleased'',
     ''delighted'', ''optimistic'']"

definition negativeWords :: "string list" where
  "negativeWords = [''sad'', ''angry'', ''frustrated'', ''upset'', ''disappointed'', ''worried'',
     ''anxious'', ''stressed'', ''terrible'', ''awful'', ''hate'', ''depressed'', ''annoyed'',
     ''irritated'', ''overwhelmed'']"

definition neutralWords :: "string list" where
  "neutralWords = [''okay'', ''fine'', ''normal'', ''regular'', ''usual'', ''average'']"

text \<open>
  \<open>words.forEach(word => { if (text.includes(word)) count++; })\<close>: the loop over one
  lexicon, with the counter as accumulator.
\<close>

fun countHits :: "string \<Rightarrow> string list \<Rightarrow> nat \<Rightarrow> nat" where
  "countHits text [] counter = counter"
| "countHits text (word # rest) counter =
     countHits text rest (if includesStr text word then counter + 1 else counter)"

definition detectMoodFromKeywords :: "string \<Rightarrow> string" where
  "detectMoodFromKeywords content =
     (let text = toLowerCase content;
          positiveCount = countHits text positiveWords 0;
          negativeCount = countHits text negativeWords 0;
          neutralCount = countHits text neutralWords 0
      in if positiveCount > negativeCount \<and> positiveCount > neutralCount then ''positive''
         else if negativeCount > positiveCount \<and> negativeCount > neutralCount then ''negative''
         else if negativeCount > 0 \<and> positiveCount = 0 then ''anxious''
         else if positiveCount > 0 \<and> negativeCount = 0 then ''content''
         else ''neutral'')"

section \<open>Data model (shared/schema.ts)\<close>

text \<open>
  A timestamp is a number of milliseconds since the epoch, as \<open>Date.prototype.getTime\<close>
  gives it. A nullable column is an \<open>option\<close>. The \<open>decimal\<close> columns hold the number
  itself (the source writes it with \<open>toString\<close> and reads it with \<open>parseFloat\<close>).
  Columns are prefixed by their table: \<open>u_\<close> for \<open>users\<close>, \<open>je_\<close> for
  \<open>journal_entries\<close>, \<open>wi_\<close> for \<open>weekly_insights\<close>.
\<close>

type_synonym timestamp = int

record User =
  u_id :: string
  u_email :: "string option"
  u_firstName :: "string option"
  u_lastName :: "string option"
  u_profileImageUrl :: "string option"
  u_currentStreak :: "int option"
  u_longestStreak :: "int option"
  u_totalEntries :: "int option"
  u_wordsWritten :: "int option"
  u_lastEntryDate :: "timestamp option"
  u_createdAt :: "timestamp option"
  u_updatedAt :: "timestamp option"

record JournalEntry =
  je_id :: string
  je_userId :: string
  je_title :: "string option"
  je_content :: string
  je_wordCount :: "int option"
  je_sentimentScore :: "real option"
  je_sentimentLabel :: "string option"
  je_aiPrompt :: "string option"
  je_mood :: "string option"
  je_themes :: "string list option"
  je_isCompleted :: "bool option"
  je_createdAt :: "timestamp option"
  je_updatedAt :: "timestamp option"

record WeeklyInsight =
  wi_id :: string
  wi_userId :: string
  wi_weekStart :: timestamp
  wi_weekEnd :: timestamp
  wi_summary :: "string option"
  wi_keyThemes :: "string list option"
  wi_moodTrend :: "string option"
  wi_averageSentiment :: "real option"
  wi_entryCount :: "int option"
  wi_createdAt :: "timestamp option"

text \<open>The database: one list of rows per table, in the order the rows were inserted.\<close>

record Db =
  users :: "User list"
  journalEntries :: "JournalEntry list"
  weeklyInsights :: "WeeklyInsight list"

section \<open>Dates\<close>

text \<open>
  The host's time zone is a fixed offset \<open>tz\<close> from UTC, in milliseconds (no
  daylight-saving change). \<open>date.setHours(0, 0, 0, 0)\<close> moves a date back to its local
  midnight. \<open>new Date(null).getTime()\<close> is 0.
\<close>

definition msPerDay :: int where
  "msPerDay = 1000 * 60 * 60 * 24"

definition setHoursZero :: "int \<Rightarrow> timestamp \<Rightarrow> timestamp" where
  "setHoursZero tz t = t - (t + tz) mod msPerDay"

definition getTime :: "timestamp option \<Rightarrow> int" where
  "getTime d = (case d of None \<Rightarrow> 0 | Some t \<Rightarrow> t)"

definition isToday :: "int \<Rightarrow> timestamp \<Rightarrow> timestamp \<Rightarrow> bool" where
  "isToday tz now date = (date = setHoursZero tz now)"

definition isYesterday :: "int \<Rightarrow> timestamp \<Rightarrow> timestamp \<Rightarrow> bool" where
  "isYesterday tz now date = (date = setHoursZero tz (now - msPerDay))"

section \<open>Statistics recomputation (DatabaseStorage.updateUserStats)\<close>

text \<open>\<open>entry.isCompleted\<close> as a condition: \<open>null\<close> and \<open>false\<close> are falsy.\<close>

definition isCompleted :: "JournalEntry \<Rightarrow> bool" where
  "isCompleted entry = (je_isCompleted entry = Some True)"

text \<open>\<open>entry.wordCount || 0\<close>\<close>

definition wordCountOr0 :: "JournalEntry \<Rightarrow> int" where
  "wordCountOr0 entry = (case je_wordCount entry of None \<Rightarrow> 0 | Some n \<Rightarrow> n)"

text \<open>
  \<open>.sort((a, b) => new Date(b.createdAt!).getTime() - new Date(a.createdAt!).getTime())\<close>:
  a stable sort, latest first.
\<close>

definition sortByCreatedAtDesc :: "JournalEntry list \<Rightarrow> JournalEntry list" where
  "sortByCreatedAtDesc es = sort_key (\<lambda>e. - getTime (je_createdAt e)) es"

text \<open>The local variables of the streak walk.\<close>

record streakVars =
  currentStreak :: int
  longestStreak :: int
  streakCount :: int
  lastDate :: "timestamp option"

definition entryDay :: "int \<Rightarrow> JournalEntry \<Rightarrow> timestamp" where
  "entryDay tz entry = setHoursZero tz (getTime (je_createdAt entry))"

text \<open>The body of \<open>for (const entry of completedEntries)\<close>.\<close>

definition streakBody :: "int \<Rightarrow> timestamp \<Rightarrow> JournalEntry \<Rightarrow> streakVars \<Rightarrow> streakVars" where
  "streakBody tz now entry v =
     (let entryDate = entryDay tz entry;
          v' = (case lastDate v of
                  None \<Rightarrow>
                    (let v1 = v\<lparr>streakCount := 1\<rparr>
                     in if isToday tz now entryDate \<or> isYesterday tz now entryDate
                        then v1\<lparr>currentStreak := 1\<rparr> else v1)
                | Some lastDay \<Rightarrow>
                    (let daysDiff = (lastDay - entryDate) div msPerDay
                     in if daysDiff = 1 then
                          (let v1 = v\<lparr>streakCount := streakCount v + 1\<rparr>
                           in if currentStreak v1 = 0
                                 \<and> (isToday tz now entryDate \<or> isYesterday tz now entryDate)
                              then v1\<lparr>currentStreak := streakCount v1\<rparr> else v1)
                        else v\<lparr>longestStreak := max (longestStreak v) (streakCount v),
                               streakCount := 1\<rparr>))
      in v'\<lparr>lastDate := Some entryDate\<rparr>)"

fun streakLoop :: "int \<Rightarrow> timestamp \<Rightarrow> JournalEntry list \<Rightarrow> streakVars \<Rightarrow> streakVars" where
  "streakLoop tz now [] v = v"
| "streakLoop tz now (entry # rest) v = streakLoop tz now rest (streakBody tz now entry v)"

definition initialVars :: streakVars where
  "initialVars = \<lparr>currentStreak = 0, longestStreak = 0, streakCount = 0, lastDate = None\<rparr>"

definition userEntries :: "Db \<Rightarrow> string \<Rightarrow> JournalEntry list" where
  "userEntries db userId = filter (\<lambda>e. je_userId e = userId) (journalEntries db)"

text \<open>
  The numbers the function computes and the UPDATE it issues, as the UPDATE acts when
  PostgreSQL accepts it; \<open>tryUpdateUserStats\<close> below adds the refusal.
\<close>

definition updateUserStats :: "int \<Rightarrow> timestamp \<Rightarrow> string \<Rightarrow> Db \<Rightarrow> Db" where
  "updateUserStats tz now userId db =
     (let entries = userEntries db userId;
          totalEntries = int (length (filter isCompleted entries));
          wordsWritten = foldl (\<lambda>sum entry. sum + wordCountOr0 entry) 0 entries;
          completedEntries = sortByCreatedAtDesc (filter isCompleted entries);
          v = streakLoop tz now completedEntries initialVars;
          longest = max (longestStreak v) (streakCount v)
      in db\<lparr>users :=
            map (\<lambda>u. if u_id u = userId
                      then u\<lparr>u_totalEntries := Some totalEntries,
                             u_wordsWritten := Some wordsWritten,
                             u_currentStreak := Some (currentStreak v),
                             u_longestStreak := Some longest,
                             u_lastEntryDate :=
                               (case completedEntries of [] \<Rightarrow> None | e # _ \<Rightarrow> je_createdAt e),
                             u_updatedAt := Some now\<rparr>
                      else u)
              (users db)\<rparr>)"

section \<open>AI analysis client (the module the routes import as ./gemini)\<close>

text \<open>
  The provider is outside the program. One call either fails (transport error or
  timeout), or returns a text that \<open>JSON.parse\<close> rejects, or returns an object whose
  fields may be missing. Each operation catches the failure, logs it and throws it again.
\<close>

datatype 'a reply = CallFailed | Malformed | Parsed 'a

datatype error = ProviderError | TypeError | DatabaseError

record rawSentiment =
  rs_score :: "real option"
  rs_label :: "string option"
  rs_mood :: "string option"
  rs_confidence :: "real option"

record SentimentResult =
  sr_score :: real
  sr_label :: string
  sr_mood :: string
  sr_confidence :: real

record rawWeekly =
  rw_insights :: "string option"
  rw_moodTrend :: "string option"
  rw_themes :: "string list option"
  rw_recommendations :: "string list option"

record WeeklyInsightResult =
  wr_insights :: string
  wr_moodTrend :: string
  wr_themes :: "string list"
  wr_recommendations :: "string list"

record Ai =
  generateSentiment :: "string \<Rightarrow> rawSentiment reply"
  generateThemes :: "string list \<Rightarrow> string list option reply"
  generateWeekly :: "(string \<times> string \<times> timestamp option) list \<Rightarrow> rawWeekly reply"

text \<open>\<open>x || d\<close> on a number (0 is falsy) and on a string (the empty string is falsy).\<close>

definition numOr :: "real option \<Rightarrow> real \<Rightarrow> real" where
  "numOr x d = (case x of None \<Rightarrow> d | Some r \<Rightarrow> if r = 0 then d else r)"

definition strOr :: "string option \<Rightarrow> string \<Rightarrow> string" where
  "strOr x d = (case x of None \<Rightarrow> d | Some t \<Rightarrow> if t = [] then d else t)"

definition analyzeSentiment :: "Ai \<Rightarrow> string \<Rightarrow> error + SentimentResult" where
  "analyzeSentiment ai content =
     (case generateSentiment ai content of
        CallFailed \<Rightarrow> Inl ProviderError
      | Malformed \<Rightarrow> Inl ProviderError
      | Parsed result \<Rightarrow>
          Inr \<lparr>sr_score = max (- 1) (min 1 (numOr (rs_score result) 0)),
               sr_label = strOr (rs_label result) ''neutral'',
               sr_mood = strOr (rs_mood result) ''neutral'',
               sr_confidence = max 0 (min 1 (numOr (rs_confidence result) (1 / 2)))\<rparr>)"

definition extractThemes :: "Ai \<Rightarrow> string list \<Rightarrow> error + string list" where
  "extractThemes ai contents =
     (if length contents = 0 then Inr []
      else case generateThemes ai contents of
             CallFailed \<Rightarrow> Inl ProviderError
           | Malformed \<Rightarrow> Inl ProviderError
           | Parsed themes \<Rightarrow> Inr (case themes of None \<Rightarrow> [] | Some ts \<Rightarrow> ts))"

definition generateWeeklyInsight ::
  "Ai \<Rightarrow> (string \<times> string \<times> timestamp option) list \<Rightarrow> error + WeeklyInsightResult" where
  "generateWeeklyInsight ai entries =
     (if length entries = 0
      then Inr \<lparr>wr_insights = ''No entries this week to analyze.'', wr_moodTrend = ''No data'',
                wr_themes = [], wr_recommendations = [''Start journaling to track your progress!'']\<rparr>
      else case generateWeekly ai entries of
             CallFailed \<Rightarrow> Inl ProviderError
           | Malformed \<Rightarrow> Inl ProviderError
           | Parsed result \<Rightarrow>
               Inr \<lparr>wr_insights =
                      strOr (rw_insights result) ''Your journaling journey is developing beautifully.'',
                    wr_moodTrend = strOr (rw_moodTrend result) ''Stable'',
                    wr_themes = (case rw_themes result of None \<Rightarrow> [] | Some ts \<Rightarrow> ts),
                    wr_recommendations =
                      (case rw_recommendations result of
                         None \<Rightarrow> [''Keep writing regularly to track your growth.'']
                       | Some rs \<Rightarrow> rs)\<rparr>)"

section \<open>Storage (DatabaseStorage)\<close>

text \<open>
  \<open>InsertJournalEntry\<close>: what \<open>insertJournalEntrySchema.parse\<close> returns. An optional
  field is \<open>None\<close> when the request does not carry it.
\<close>

record InsertJournalEntry =
  ie_userId :: string
  ie_title :: "string option"
  ie_content :: string
  ie_wordCount :: "int option"
  ie_sentimentScore :: "real option"
  ie_sentimentLabel :: "string option"
  ie_aiPrompt :: "string option"
  ie_mood :: "string option"
  ie_themes :: "string list option"
  ie_isCompleted :: "bool option"

text \<open>
  A request body, read at the type the storage layer declares for it,
  \<open>Partial<InsertJournalEntry>\<close>: every field may be absent (\<open>None\<close>) or carry a value
  of its column's type; a \<open>sentimentScore\<close> is the number its decimal string denotes.
  A body that sets a column to \<open>null\<close> is not modelled.
\<close>

record EntryBody =
  b_userId :: "string option"
  b_title :: "string option"
  b_content :: "string option"
  b_wordCount :: "int option"
  b_sentimentScore :: "real option"
  b_sentimentLabel :: "string option"
  b_aiPrompt :: "string option"
  b_mood :: "string option"
  b_themes :: "string list option"
  b_isCompleted :: "bool option"

text \<open>
  What PostgreSQL checks when a statement writes a value. An \<open>integer\<close> column holds 32
  bits. A text value holds no NUL character. The \<open>decimal(3,2)\<close> column rounds the value
  to two decimals (ties away from zero) and refuses it unless the rounded value lies
  strictly between -10 and 10. \<open>user_id\<close> references a row of \<open>users\<close>, and \<open>id\<close> is
  unique. A refused statement changes nothing, and the call throws.
\<close>

definition fitsInteger :: "int \<Rightarrow> bool" where
  "fitsInteger n = (- 2147483648 \<le> n \<and> n \<le> 2147483647)"

definition storableText :: "string \<Rightarrow> bool" where
  "storableText s = list_all (\<lambda>c. of_char c \<noteq> (0 :: nat)) s"

definition roundHundredths :: "real \<Rightarrow> int" where
  "roundHundredths x = (if 0 \<le> x then \<lfloor>x * 100 + 1 / 2\<rfloor> else - \<lfloor>- x * 100 + 1 / 2\<rfloor>)"

text \<open>The score as the column stores it: \<open>None\<close> when it is refused.\<close>

definition storeScore :: "real option \<Rightarrow> real option option" where
  "storeScore x =
     (case x of
        None \<Rightarrow> Some None
      | Some r \<Rightarrow>
          (let k = roundHundredths r
           in if - 1000 < k \<and> k < 1000 then Some (Some (real_of_int k / 100)) else None))"

definition storableRow :: "Db \<Rightarrow> JournalEntry \<Rightarrow> bool" where
  "storableRow db row =
     (je_userId row \<in> set (map u_id (users db))
      \<and> storableText (je_userId row)
      \<and> (case je_title row of None \<Rightarrow> True | Some t \<Rightarrow> storableText t)
      \<and> storableText (je_content row)
      \<and> (case je_wordCount row of None \<Rightarrow> True | Some n \<Rightarrow> fitsInteger n)
      \<and> (case je_sentimentLabel row of None \<Rightarrow> True | Some t \<Rightarrow> storableText t)
      \<and> (case je_aiPrompt row of None \<Rightarrow> True | Some t \<Rightarrow> storableText t)
      \<and> (case je_mood row of None \<Rightarrow> True | Some t \<Rightarrow> storableText t)
      \<and> (case je_themes row of None \<Rightarrow> True | Some ts \<Rightarrow> list_all storableText ts))"

text \<open>
  \<open>await this.updateUserStats(userId)\<close> as its callers see it: the UPDATE is refused
  when one of the four numbers does not fit its \<open>integer\<close> column; otherwise the rows
  are as \<open>updateUserStats\<close> leaves them.
\<close>

definition tryUpdateUserStats :: "int \<Rightarrow> timestamp \<Rightarrow> string \<Rightarrow> Db \<Rightarrow> error + Db" where
  "tryUpdateUserStats tz now userId db =
     (let entries = filter (\<lambda>entry. je_userId entry = userId) (journalEntries db);
          totalEntries = int (length (filter isCompleted entries));
          wordsWritten = foldl (\<lambda>sum entry. sum + wordCountOr0 entry) 0 entries;
          v = streakLoop tz now (sortByCreatedAtDesc (filter isCompleted entries)) initialVars
      in if fitsInteger totalEntries \<and> fitsInteger wordsWritten
            \<and> fitsInteger (currentStreak v)
            \<and> fitsInteger (max (longestStreak v) (streakCount v))
         then Inr (updateUserStats tz now userId db)
         else Inl DatabaseError)"

text \<open>A column with a default takes it when the inserted value is absent.\<close>

definition withDefault :: "'a option \<Rightarrow> 'a \<Rightarrow> 'a option" where
  "withDefault x d = (case x of None \<Rightarrow> Some d | Some y \<Rightarrow> Some y)"

text \<open>
  \<open>createJournalEntry\<close>: insert the row (the database draws the id \<open>newId\<close> and stamps
  both dates with \<open>now\<close>), then recompute the owner's statistics. When the recomputation
  throws, the row is already inserted.
\<close>

definition createJournalEntry ::
  "int \<Rightarrow> timestamp \<Rightarrow> string \<Rightarrow> InsertJournalEntry \<Rightarrow> Db \<Rightarrow> (error + JournalEntry) \<times> Db" where
  "createJournalEntry tz now newId entry db =
     (case storeScore (ie_sentimentScore entry) of
        None \<Rightarrow> (Inl DatabaseError, db)
      | Some score \<Rightarrow>
          (let journalEntry =
                 \<lparr>je_id = newId, je_userId = ie_userId entry, je_title = ie_title entry,
                  je_content = ie_content entry,
                  je_wordCount = withDefault (ie_wordCount entry) 0,
                  je_sentimentScore = score,
                  je_sentimentLabel = ie_sentimentLabel entry, je_aiPrompt = ie_aiPrompt entry,
                  je_mood = ie_mood entry, je_themes = ie_themes entry,
                  je_isCompleted = withDefault (ie_isCompleted entry) False,
                  je_createdAt = Some now, je_updatedAt = Some now\<rparr>
           in if storableRow db journalEntry \<and> newId \<notin> set (map je_id (journalEntries db))
              then
                (let db1 = db\<lparr>journalEntries := journalEntries db @ [journalEntry]\<rparr>
                 in case tryUpdateUserStats tz now (ie_userId entry) db1 of
                      Inl e \<Rightarrow> (Inl e, db1)
                    | Inr db2 \<Rightarrow> (Inr journalEntry, db2))
              else (Inl DatabaseError, db)))"

text \<open>
  \<open>.set({ ...entry, updatedAt: new Date() })\<close> on one row: an absent field keeps the
  stored value; the result is \<open>None\<close> when PostgreSQL refuses the new row.
\<close>

definition orKeep :: "'a option \<Rightarrow> 'a option \<Rightarrow> 'a option" where
  "orKeep new old = (case new of None \<Rightarrow> old | Some x \<Rightarrow> Some x)"

definition setEntry :: "Db \<Rightarrow> EntryBody \<Rightarrow> timestamp \<Rightarrow> JournalEntry \<Rightarrow> JournalEntry option" where
  "setEntry db entry now row =
     (case storeScore (b_sentimentScore entry) of
        None \<Rightarrow> None
      | Some score \<Rightarrow>
          (let updated =
                 row\<lparr>je_userId := (case b_userId entry of None \<Rightarrow> je_userId row | Some u \<Rightarrow> u),
                     je_title := orKeep (b_title entry) (je_title row),
                     je_content :=
                       (case b_content entry of None \<Rightarrow> je_content row | Some c \<Rightarrow> c),
                     je_wordCount := orKeep (b_wordCount entry) (je_wordCount row),
                     je_sentimentScore := orKeep score (je_sentimentScore row),
                     je_sentimentLabel := orKeep (b_sentimentLabel entry) (je_sentimentLabel row),
                     je_aiPrompt := orKeep (b_aiPrompt entry) (je_aiPrompt row),
                     je_mood := orKeep (b_mood entry) (je_mood row),
                     je_themes := orKeep (b_themes entry) (je_themes row),
                     je_isCompleted := orKeep (b_isCompleted entry) (je_isCompleted row),
                     je_updatedAt := Some now\<rparr>
           in if storableRow db updated then Some updated else None))"

text \<open>
  \<open>updateJournalEntry\<close>: update the rows with this id, take the first returned row, and
  recompute its owner's statistics if there is one. When the recomputation throws, the
  rows are already updated.
\<close>

definition updateJournalEntry ::
  "int \<Rightarrow> timestamp \<Rightarrow> string \<Rightarrow> EntryBody \<Rightarrow> Db \<Rightarrow> (error + JournalEntry option) \<times> Db" where
  "updateJournalEntry tz now entryId entry db =
     (case those (map (\<lambda>row. if je_id row = entryId then setEntry db entry now row else Some row)
                   (journalEntries db)) of
        None \<Rightarrow> (Inl DatabaseError, db)
      | Some rows \<Rightarrow>
          (let db1 = db\<lparr>journalEntries := rows\<rparr>
           in case find (\<lambda>row. je_id row = entryId) rows of
                None \<Rightarrow> (Inr None, db1)
              | Some journalEntry \<Rightarrow>
                  (case tryUpdateUserStats tz now (je_userId journalEntry) db1 of
                     Inl e \<Rightarrow> (Inl e, db1)
                   | Inr db2 \<Rightarrow> (Inr (Some journalEntry), db2))))"

definition deleteJournalEntry :: "string \<Rightarrow> Db \<Rightarrow> Db" where
  "deleteJournalEntry entryId db =
     db\<lparr>journalEntries := filter (\<lambda>row. je_id row \<noteq> entryId) (journalEntries db)\<rparr>"

definition getJournalEntry :: "Db \<Rightarrow> string \<Rightarrow> JournalEntry option" where
  "getJournalEntry db entryId = find (\<lambda>row. je_id row = entryId) (journalEntries db)"

text \<open>
  \<open>getUserJournalEntries\<close>: the user's completed entries, latest first (PostgreSQL puts
  the rows without a date first in a descending order), at most \<open>limit\<close> of them.
\<close>

definition getUserJournalEntries :: "Db \<Rightarrow> string \<Rightarrow> nat \<Rightarrow> JournalEntry list" where
  "getUserJournalEntries db userId limit =
     (let rows = filter (\<lambda>row. je_userId row = userId \<and> je_isCompleted row = Some True)
                   (journalEntries db)
      in take limit (filter (\<lambda>row. je_createdAt row = None) rows
                     @ sortByCreatedAtDesc (filter (\<lambda>row. je_createdAt row \<noteq> None) rows)))"

definition getJournalEntriesByDateRange ::
  "Db \<Rightarrow> string \<Rightarrow> timestamp \<Rightarrow> timestamp \<Rightarrow> JournalEntry list" where
  "getJournalEntriesByDateRange db userId startDate endDate =
     sortByCreatedAtDesc
       (filter (\<lambda>row. je_userId row = userId
                  \<and> (case je_createdAt row of None \<Rightarrow> False
                      | Some t \<Rightarrow> startDate \<le> t \<and> t \<le> endDate))
          (journalEntries db))"

definition createWeeklyInsight ::
  "timestamp \<Rightarrow> string \<Rightarrow> WeeklyInsight \<Rightarrow> Db \<Rightarrow> WeeklyInsight \<times> Db" where
  "createWeeklyInsight now newId insight db =
     (let weeklyInsight = insight\<lparr>wi_id := newId, wi_createdAt := Some now\<rparr>
      in (weeklyInsight, db\<lparr>weeklyInsights := weeklyInsights db @ [weeklyInsight]\<rparr>))"

definition getWeeklyInsight :: "Db \<Rightarrow> string \<Rightarrow> timestamp \<Rightarrow> WeeklyInsight option" where
  "getWeeklyInsight db userId weekStart =
     find (\<lambda>row. wi_userId row = userId \<and> wi_weekStart row = weekStart) (weeklyInsights db)"

definition deleteWeeklyInsight :: "string \<Rightarrow> Db \<Rightarrow> Db" where
  "deleteWeeklyInsight insightId db =
     db\<lparr>weeklyInsights := filter (\<lambda>row. wi_id row \<noteq> insightId) (weeklyInsights db)\<rparr>"

section \<open>Entry pipeline (the routes on /api/journal-entries)\<close>

text \<open>
  \<open>content.trim().split(/\s+/).filter(word => word.length > 0).length\<close>. A character
  is a code unit below 256; the white space of \<open>\s\<close> and of \<open>trim\<close> among these is tab,
  line feed, vertical tab, form feed, carriage return, space and the no-break space
  (160).
\<close>

definition isWhitespace :: "char \<Rightarrow> bool" where
  "isWhitespace c =
     (let n = (of_char c :: nat) in n = 32 \<or> (9 \<le> n \<and> n \<le> 13) \<or> n = 160)"

definition trim :: "string \<Rightarrow> string" where
  "trim s = rev (dropWhile isWhitespace (rev (dropWhile isWhitespace s)))"

text \<open>
  \<open>s.split(/\s+/)\<close>: the pieces between maximal runs of white space; \<open>piece\<close> is the
  piece being read.
\<close>

function splitWhitespace :: "string \<Rightarrow> string \<Rightarrow> string list" where
  "splitWhitespace piece [] = [piece]"
| "splitWhitespace piece (c # cs) =
     (if isWhitespace c then piece # splitWhitespace [] (dropWhile isWhitespace cs)
      else splitWhitespace (piece @ [c]) cs)"
  by pat_completeness auto
termination
  by (relation "measure (\<lambda>(piece, s). length s)")
     (auto simp add: length_dropWhile_le le_imp_less_Suc)

definition countWords :: "string \<Rightarrow> nat" where
  "countWords content =
     length (filter (\<lambda>word. length word > 0) (splitWhitespace [] (trim content)))"

text \<open>A response: \<open>res.json(x)\<close>, or \<open>res.status(code).json({ message })\<close>.\<close>

datatype 'a response = Json 'a | Failure nat string

text \<open>
  \<open>insertJournalEntrySchema.parse({ ...req.body, userId })\<close>: \<open>content\<close> is required; a
  body without it is rejected.
\<close>

definition parseInsert :: "EntryBody \<Rightarrow> string \<Rightarrow> InsertJournalEntry option" where
  "parseInsert body userId =
     (case b_content body of
        None \<Rightarrow> None
      | Some c \<Rightarrow>
          Some \<lparr>ie_userId = userId, ie_title = b_title body, ie_content = c,
                ie_wordCount = b_wordCount body, ie_sentimentScore = b_sentimentScore body,
                ie_sentimentLabel = b_sentimentLabel body, ie_aiPrompt = b_aiPrompt body,
                ie_mood = b_mood body, ie_themes = b_themes body,
                ie_isCompleted = b_isCompleted body\<rparr>)"

text \<open>The \<open>catch\<close> block of the analysis in the POST route.\<close>

definition useFallbacks :: "InsertJournalEntry \<Rightarrow> InsertJournalEntry" where
  "useFallbacks entryData =
     (let m = detectMoodFromKeywords (ie_content entryData)
      in entryData\<lparr>ie_mood := Some m, ie_sentimentScore := Some 0,
                   ie_sentimentLabel := Some m, ie_themes := Some []\<rparr>)"

text \<open>\<open>app.post("/api/journal-entries", ...)\<close>\<close>

definition postJournalEntries ::
  "Ai \<Rightarrow> int \<Rightarrow> timestamp \<Rightarrow> string \<Rightarrow> string \<Rightarrow> EntryBody \<Rightarrow> Db \<Rightarrow> JournalEntry response \<times> Db" where
  "postJournalEntries ai tz now newId userId body db =
     (case parseInsert body userId of
        None \<Rightarrow> (Failure 500 ''Failed to create journal entry'', db)
      | Some parsed \<Rightarrow>
          (let wordCount = countWords (ie_content parsed);
               entryData = parsed\<lparr>ie_wordCount := Some (int wordCount)\<rparr>;
               analysed =
                 (if wordCount > 10 then
                    (case analyzeSentiment ai (ie_content entryData) of
                       Inl _ \<Rightarrow> useFallbacks entryData
                     | Inr sentiment \<Rightarrow>
                         (let withSentiment =
                                entryData\<lparr>ie_sentimentScore := Some (sr_score sentiment),
                                          ie_sentimentLabel := Some (sr_label sentiment),
                                          ie_mood := Some (sr_mood sentiment)\<rparr>;
                              recentEntries = getUserJournalEntries db userId 5;
                              allEntries =
                                ie_content entryData
                                # map je_content
                                    (filter (\<lambda>entry. je_createdAt entry \<noteq> None) recentEntries)
                          in case extractThemes ai allEntries of
                               Inl _ \<Rightarrow> useFallbacks withSentiment
                             | Inr themes \<Rightarrow> withSentiment\<lparr>ie_themes := Some themes\<rparr>))
                  else entryData)
           in case createJournalEntry tz now newId analysed db of
                (Inl _, db') \<Rightarrow> (Failure 500 ''Failed to create journal entry'', db')
              | (Inr entry, db') \<Rightarrow> (Json entry, db')))"

text \<open>\<open>app.patch("/api/journal-entries/:id", ...)\<close>\<close>

definition patchJournalEntry ::
  "Ai \<Rightarrow> int \<Rightarrow> timestamp \<Rightarrow> string \<Rightarrow> string \<Rightarrow> EntryBody \<Rightarrow> Db
     \<Rightarrow> JournalEntry option response \<times> Db" where
  "patchJournalEntry ai tz now userId entryId body db =
     (case getJournalEntry db entryId of
        None \<Rightarrow> (Failure 404 ''Entry not found'', db)
      | Some existingEntry \<Rightarrow>
          if je_userId existingEntry \<noteq> userId then (Failure 404 ''Entry not found'', db)
          else
            (let prepared =
                   (case b_content body of
                      None \<Rightarrow> Inr body
                    | Some content \<Rightarrow>
                        if content = [] then Inr body
                        else
                          (let wordCount = countWords content;
                               updateData = body\<lparr>b_wordCount := Some (int wordCount)\<rparr>
                           in if wordCount > 10 \<and> content \<noteq> je_content existingEntry then
                                (case analyzeSentiment ai content of
                                   Inl e \<Rightarrow> Inl e
                                 | Inr sentiment \<Rightarrow>
                                     Inr (updateData\<lparr>b_sentimentScore := Some (sr_score sentiment),
                                            b_sentimentLabel := Some (sr_label sentiment),
                                            b_mood := Some (sr_mood sentiment)\<rparr>))
                              else Inr updateData))
             in case prepared of
                  Inl _ \<Rightarrow> (Failure 500 ''Failed to update journal entry'', db)
                | Inr updateData \<Rightarrow>
                    (case updateJournalEntry tz now entryId updateData db of
                       (Inl _, db') \<Rightarrow> (Failure 500 ''Failed to update journal entry'', db')
                     | (Inr entry, db') \<Rightarrow> (Json entry, db'))))"

text \<open>\<open>app.delete("/api/journal-entries/:id", ...)\<close>\<close>

definition deleteJournalEntryRoute :: "string \<Rightarrow> string \<Rightarrow> Db \<Rightarrow> string response \<times> Db" where
  "deleteJournalEntryRoute userId entryId db =
     (case getJournalEntry db entryId of
        None \<Rightarrow> (Failure 404 ''Entry not found'', db)
      | Some existingEntry \<Rightarrow>
          if je_userId existingEntry \<noteq> userId then (Failure 404 ''Entry not found'', db)
          else (Json ''Entry deleted successfully'', deleteJournalEntry entryId db))"

section \<open>Weekly insight aggregator (GET /api/insights/weekly)\<close>

text \<open>
  The start of the current week: back to Sunday (\<open>getDay\<close> is 0 on Sunday; the epoch was
  a Thursday), at local midnight. The end: six days later at 23:59:59.999.
\<close>

definition weekStartOf :: "int \<Rightarrow> timestamp \<Rightarrow> timestamp" where
  "weekStartOf tz now =
     (let getDay = ((now + tz) div msPerDay + 4) mod 7
      in setHoursZero tz (now - getDay * msPerDay))"

definition weekEndOf :: "timestamp \<Rightarrow> timestamp" where
  "weekEndOf weekStart = weekStart + 6 * msPerDay + (msPerDay - 1)"

text \<open>
  \<open>acc[mood] = (acc[mood] || 0) + 1\<close> on an object whose keys are kept in insertion
  order, and \<open>Object.keys(moodCounts).reduce((a, b) => moodCounts[a] > moodCounts[b] ? a : b)\<close>,
  which throws on an empty object.
\<close>

fun bump :: "(string \<times> nat) list \<Rightarrow> string \<Rightarrow> (string \<times> nat) list" where
  "bump [] k = [(k, 1)]"
| "bump ((k', n) # rest) k = (if k' = k then (k', n + 1) # rest else (k', n) # bump rest k)"

definition moodCountsOf :: "JournalEntry list \<Rightarrow> (string \<times> nat) list" where
  "moodCountsOf entries =
     foldl (\<lambda>acc entry. bump acc (strOr (je_mood entry) ''neutral'')) [] entries"

definition dominantMoodOf :: "(string \<times> nat) list \<Rightarrow> string option" where
  "dominantMoodOf moodCounts =
     (case moodCounts of
        [] \<Rightarrow> None
      | first # rest \<Rightarrow> Some (fst (foldl (\<lambda>a b. if snd a > snd b then a else b) first rest)))"

text \<open>A number in a template string, and \<open>Math.round\<close>.\<close>

fun showNat :: "nat \<Rightarrow> string" where
  "showNat n = (if n < 10 then [char_of (48 + n)]
                else showNat (n div 10) @ [char_of (48 + n mod 10)])"

declare showNat.simps [simp del]

definition showInt :: "int \<Rightarrow> string" where
  "showInt i = (if i < 0 then CHR ''-'' # showNat (nat (- i)) else showNat (nat i))"

definition mathRound :: "real \<Rightarrow> int" where
  "mathRound x = \<lfloor>x + 1 / 2\<rfloor>"

definition intOr0 :: "int option \<Rightarrow> int" where
  "intOr0 x = (case x of None \<Rightarrow> 0 | Some n \<Rightarrow> n)"

text \<open>The \<open>try\<close> block of the regeneration: the row to insert, or the error thrown.\<close>

definition aiInsight ::
  "Ai \<Rightarrow> string \<Rightarrow> timestamp \<Rightarrow> timestamp \<Rightarrow> JournalEntry list \<Rightarrow> error + WeeklyInsight" where
  "aiInsight ai userId weekStart weekEnd completedEntries =
     (let validEntries = filter (\<lambda>entry. je_createdAt entry \<noteq> None) completedEntries
      in case extractThemes ai (map je_content validEntries) of
           Inl e \<Rightarrow> Inl e
         | Inr themes \<Rightarrow>
             (case generateWeeklyInsight ai
                     (map (\<lambda>entry. (je_content entry, strOr (je_mood entry) ''neutral'',
                                    je_createdAt entry)) completedEntries) of
                Inl e \<Rightarrow> Inl e
              | Inr weeklyData \<Rightarrow>
                  (let averageSentiment =
                         foldl (\<lambda>sum entry. sum + numOr (je_sentimentScore entry) 0) 0
                           completedEntries
                         / real (length completedEntries)
                   in case dominantMoodOf (moodCountsOf completedEntries) of
                        None \<Rightarrow> Inl TypeError
                      | Some dominantMood \<Rightarrow>
                          Inr \<lparr>wi_id = [], wi_userId = userId, wi_weekStart = weekStart,
                               wi_weekEnd = weekEnd,
                               wi_summary = Some (wr_insights weeklyData),
                               wi_keyThemes = Some (wr_themes weeklyData),
                               wi_moodTrend = Some dominantMood,
                               wi_averageSentiment = Some averageSentiment,
                               wi_entryCount = Some (int (length completedEntries)),
                               wi_createdAt = None\<rparr>)))"

text \<open>The \<open>catch\<close> block: the templated summary.\<close>

definition simpleInsight ::
  "string \<Rightarrow> timestamp \<Rightarrow> timestamp \<Rightarrow> JournalEntry list \<Rightarrow> WeeklyInsight" where
  "simpleInsight userId weekStart weekEnd completedEntries =
     (let entryCount = int (length completedEntries);
          avgWordCount =
            mathRound (real_of_int (foldl (\<lambda>sum e. sum + wordCountOr0 e) 0 completedEntries)
                       / real_of_int entryCount)
      in \<lparr>wi_id = [], wi_userId = userId, wi_weekStart = weekStart, wi_weekEnd = weekEnd,
          wi_summary =
            Some (''You wrote '' @ showInt entryCount @ '' entries this week with an average of ''
                  @ showInt avgWordCount
                  @ '' words. Your journaling shows thoughtful reflection on your experiences.''),
          wi_keyThemes = Some [''personal reflection'', ''self-awareness''],
          wi_moodTrend = Some ''Reflective'',
          wi_averageSentiment = Some 0,
          wi_entryCount = Some entryCount,
          wi_createdAt = None\<rparr>)"

text \<open>\<open>app.get("/api/insights/weekly", ...)\<close>\<close>

definition getWeeklyInsightRoute ::
  "Ai \<Rightarrow> int \<Rightarrow> timestamp \<Rightarrow> string \<Rightarrow> string \<Rightarrow> Db \<Rightarrow> WeeklyInsight option response \<times> Db" where
  "getWeeklyInsightRoute ai tz now newId userId db =
     (let weekStart = weekStartOf tz now;
          insight = getWeeklyInsight db userId weekStart;
          weekEnd = weekEndOf weekStart;
          weekEntries = getJournalEntriesByDateRange db userId weekStart weekEnd;
          completedEntries = filter isCompleted weekEntries
      in if (case insight of
               None \<Rightarrow> True
             | Some stored \<Rightarrow> int (length completedEntries) > intOr0 (wi_entryCount stored))
         then
           (if length completedEntries > 0 then
              (let fresh = (case aiInsight ai userId weekStart weekEnd completedEntries of
                              Inl _ \<Rightarrow> simpleInsight userId weekStart weekEnd completedEntries
                            | Inr row \<Rightarrow> row);
                   db1 = (case insight of
                            None \<Rightarrow> db
                          | Some stored \<Rightarrow> deleteWeeklyInsight (wi_id stored) db);
                   (created, db2) = createWeeklyInsight now newId fresh db1
               in (Json (Some created), db2))
            else (Json insight, db))
         else (Json insight, db))"

section \<open>Example data\<close>

definition newUser :: "string \<Rightarrow> User" where
  "newUser uid = \<lparr>u_id = uid, u_email = None, u_firstName = None, u_lastName = None,
     u_profileImageUrl = None, u_currentStreak = Some 0, u_longestStreak = Some 0,
     u_totalEntries = Some 0, u_wordsWritten = Some 0, u_lastEntryDate = None,
     u_createdAt = Some 0, u_updatedAt = Some 0\<rparr>"

definition plainEntry :: "string \<Rightarrow> string \<Rightarrow> int \<Rightarrow> bool \<Rightarrow> timestamp \<Rightarrow> JournalEntry" where
  "plainEntry eid uid wc done t = \<lparr>je_id = eid, je_userId = uid, je_title = None,
     je_content = ''text'', je_wordCount = Some wc, je_sentimentScore = None,
     je_sentimentLabel = None, je_aiPrompt = None, je_mood = None, je_themes = None,
     je_isCompleted = Some done, je_createdAt = Some t, je_updatedAt = Some t\<rparr>"

text \<open>2024-01-01T00:00:00Z is 1704067200000; the entries are written at 09:00 UTC.\<close>

definition jan :: "int \<Rightarrow> timestamp" where
  "jan d = 1704067200000 + (d - 1) * msPerDay + 9 * 3600000"

definition threeDays :: Db where
  "threeDays = \<lparr>users = [newUser ''u1''],
     journalEntries = [plainEntry ''e1'' ''u1'' 12 True (jan 1),
                       plainEntry ''e2'' ''u1'' 12 True (jan 2),
                       plainEntry ''e3'' ''u1'' 12 True (jan 3)],
     weeklyInsights = []\<rparr>"

text \<open>A draft of 5 words and a completed entry of 12 words.\<close>

definition draftAndDone :: Db where
  "draftAndDone = \<lparr>users = [newUser ''u1''],
     journalEntries = [plainEntry ''d1'' ''u1'' 5 False (jan 1),
                       plainEntry ''e1'' ''u1'' 12 True (jan 2)],
     weeklyInsights = []\<rparr>"


text \<open>Two entries of 2000000000 words each: their sum does not fit 32 bits.\<close>

definition hugeCounts :: Db where
  "hugeCounts = \<lparr>users = [newUser ''u1''],
     journalEntries = [plainEntry ''e1'' ''u1'' 2000000000 True (jan 1),
                       plainEntry ''e2'' ''u1'' 2000000000 False (jan 2)],
     weeklyInsights = []\<rparr>"

text \<open>Eleven words separated by no-break spaces.\<close>

definition nbsp :: char where
  "nbsp = char_of (160 :: nat)"

definition elevenWords :: string where
  "elevenWords = ''one'' @ [nbsp] @ ''two'' @ [nbsp] @ ''three'' @ [nbsp] @ ''four'' @ [nbsp]
     @ ''five'' @ [nbsp] @ ''six'' @ [nbsp] @ ''seven'' @ [nbsp] @ ''eight'' @ [nbsp] @ ''nine''
     @ [nbsp] @ ''ten'' @ [nbsp] @ ''eleven''"

text \<open>A provider that is down.\<close>

definition downAi :: Ai where
  "downAi = \<lparr>generateSentiment = (\<lambda>_. CallFailed), generateThemes = (\<lambda>_. CallFailed),
     generateWeekly = (\<lambda>_. CallFailed)\<rparr>"

definition emptyBody :: EntryBody where
  "emptyBody = \<lparr>b_userId = None, b_title = None, b_content = None, b_wordCount = None,
     b_sentimentScore = None, b_sentimentLabel = None, b_aiPrompt = None, b_mood = None,
     b_themes = None, b_isCompleted = None\<rparr>"

definition longText :: string where
  "longText = ''today I felt happy and calm while walking home along the river bank''"

text \<open>A short body that supplies a mood and a score with three decimals.\<close>

definition shortBody :: EntryBody where
  "shortBody = emptyBody\<lparr>b_content := Some ''too short now'', b_mood := Some ''calm'',
     b_sentimentScore := Some (3 / 8)\<rparr>"

definition emptyDb :: Db where
  "emptyDb = \<lparr>users = [newUser ''u1''], journalEntries = [], weeklyInsights = []\<rparr>"

text \<open>The database after user \<open>u1\<close> has created one completed entry on 2024-01-03.\<close>

definition oneEntry :: Db where
  "oneEntry = snd (createJournalEntry 0 (jan 3) ''e1''
     \<lparr>ie_userId = ''u1'', ie_title = None, ie_content = ''a short note'',
      ie_wordCount = Some 3, ie_sentimentScore = None, ie_sentimentLabel = None,
      ie_aiPrompt = None, ie_mood = None, ie_themes = None, ie_isCompleted = Some True\<rparr>
     emptyDb)"

text \<open>An entry that was analysed when it was written.\<close>

definition analysedEntry :: JournalEntry where
  "analysedEntry = \<lparr>je_id = ''e1'', je_userId = ''u1'', je_title = None,
     je_content = longText, je_wordCount = Some 13, je_sentimentScore = Some (4 / 5),
     je_sentimentLabel = Some ''positive'', je_aiPrompt = None, je_mood = Some ''happy'',
     je_themes = Some [''nature''], je_isCompleted = Some True, je_createdAt = Some (jan 3),
     je_updatedAt = Some (jan 3)\<rparr>"

definition analysedDb :: Db where
  "analysedDb = \<lparr>users = [newUser ''u1''], journalEntries = [analysedEntry],
     weeklyInsights = []\<rparr>"

text \<open>A stored insight for the week of 2023-12-31 that accounts for the one entry.\<close>

definition storedInsight :: WeeklyInsight where
  "storedInsight = \<lparr>wi_id = ''w1'', wi_userId = ''u1'', wi_weekStart = 1703980800000,
     wi_weekEnd = 1704585599999, wi_summary = Some ''A calm week.'',
     wi_keyThemes = Some [''nature''], wi_moodTrend = Some ''happy'',
     wi_averageSentiment = Some (4 / 5), wi_entryCount = Some 1, wi_createdAt = Some (jan 3)\<rparr>"

definition insightDb :: Db where
  "insightDb = \<lparr>users = [newUser ''u1''], journalEntries = [analysedEntry],
     weeklyInsights = [storedInsight]\<rparr>"

section \<open>Properties of the fallback analyzer\<close>

lemma startsWith_iff: "startsWith t w \<longleftrightarrow> (\<exists>s. t = w @ s)"
  by (induction t w rule: startsWith.induct) auto

lemma includesStr_iff: "includesStr t w \<longleftrightarrow> (\<exists>p s. t = p @ w @ s)"
proof (induction t)
  case Nil
  show ?case by (simp add: startsWith_iff)
next
  case (Cons c cs)
  show ?case
  proof
    assume "includesStr (c # cs) w"
    then consider "startsWith (c # cs) w" | "includesStr cs w" by auto
    then show "\<exists>p s. c # cs = p @ w @ s"
    proof cases
      case 1
      then obtain s where "c # cs = w @ s" unfolding startsWith_iff ..
      then have "c # cs = [] @ w @ s" by simp
      then show ?thesis by blast
    next
      case 2
      with Cons obtain p s where "cs = p @ w @ s" by blast
      then have "c # cs = (c # p) @ w @ s" by simp
      then show ?thesis by blast
    qed
  next
    assume "\<exists>p s. c # cs = p @ w @ s"
    then obtain p s where eq: "c # cs = p @ w @ s" by blast
    show "includesStr (c # cs) w"
    proof (cases p)
      case Nil
      with eq have "startsWith (c # cs) w" unfolding startsWith_iff by auto
      then show ?thesis by simp
    next
      case (Cons a p')
      with eq have "cs = p' @ w @ s" by simp
      then have "includesStr cs w" using Cons.IH by blast
      then show ?thesis by simp
    qed
  qed
qed

lemma countHits_filter: "countHits t ws n = n + length (filter (includesStr t) ws)"
  by (induction ws arbitrary: n) auto

lemma countHits_card:
  "distinct ws \<Longrightarrow> countHits t ws 0 = card {w \<in> set ws. includesStr t w}"
  by (simp add: countHits_filter distinct_length_filter Int_def conj_commute)

lemma distinct_lexicons:
  "distinct positiveWords" "distinct negativeWords" "distinct neutralWords"
  by (simp_all add: positiveWords_def negativeWords_def neutralWords_def)

lemma stressed_counts:
  "countHits (toLowerCase ''I am stressed and anxious'') positiveWords 0 = 0"
  "countHits (toLowerCase ''I am stressed and anxious'') negativeWords 0 = 2"
  "countHits (toLowerCase ''I am stressed and anxious'') neutralWords 0 = 0"
  by code_simp+

text \<open>
  C6 (as the code has it): on the text \<open>I am stressed and anxious\<close> the classifier finds
  two negative keywords (\<open>anxious\<close>, \<open>stressed\<close>), no positive and no neutral one, so the
  second rule fires (negative count strictly above both others) and the result is
  \<open>negative\<close>. The tag \<open>anxious\<close> is returned exactly when there is no positive hit, at
  least one negative hit, and at least as many neutral hits as negative ones.
\<close>

theorem C6_stressed_anxious_is_negative:
  "detectMoodFromKeywords ''I am stressed and anxious'' = ''negative''
   \<and> (detectMoodFromKeywords content = ''anxious'' \<longleftrightarrow>
        countHits (toLowerCase content) positiveWords 0 = 0
        \<and> 0 < countHits (toLowerCase content) negativeWords 0
        \<and> countHits (toLowerCase content) negativeWords 0
             \<le> countHits (toLowerCase content) neutralWords 0)"
proof
  show "detectMoodFromKeywords ''I am stressed and anxious'' = ''negative''"
    by (simp add: detectMoodFromKeywords_def stressed_counts)
  show "detectMoodFromKeywords content = ''anxious'' \<longleftrightarrow>
        countHits (toLowerCase content) positiveWords 0 = 0
        \<and> 0 < countHits (toLowerCase content) negativeWords 0
        \<and> countHits (toLowerCase content) negativeWords 0
             \<le> countHits (toLowerCase content) neutralWords 0"
    by (auto simp add: detectMoodFromKeywords_def Let_def)
qed

text \<open>
  C6, counterexample to the claim as stated: the classifier does not return \<open>anxious\<close>
  on \<open>I am stressed and anxious\<close>.
\<close>

theorem C6_counterexample:
  "detectMoodFromKeywords ''I am stressed and anxious'' \<noteq> ''anxious''"
  by (simp add: detectMoodFromKeywords_def stressed_counts)

lemma unhappy_counts:
  "countHits (toLowerCase ''unhappy'') positiveWords 0 = 1"
  "countHits (toLowerCase ''unhappy'') negativeWords 0 = 0"
  "countHits (toLowerCase ''unhappy'') neutralWords 0 = 0"
  by code_simp+

lemma happy_thrice:
  "countHits (toLowerCase ''Happy happy HAPPY'') positiveWords 0 = 1"
  by code_simp

lemma upper_counts:
  "countHits (toLowerCase ''UNHAPPY'') positiveWords 0 = 1"
  "countHits (toLowerCase ''UNHAPPY'') negativeWords 0 = 0"
  "countHits (toLowerCase ''UNHAPPY'') neutralWords 0 = 0"
  by code_simp+

lemma toLowerCase_map:
  "toLowerCase content
     = map (\<lambda>c. if 65 \<le> (of_char c :: nat) \<and> (of_char c :: nat) \<le> 90
                 then char_of ((of_char c :: nat) + 32) else c) content"
  by (simp add: toLowerCase_def toLowerChar_def Let_def)

lemma countHits_substrings:
  "distinct ws \<Longrightarrow> countHits t ws 0 = card {w \<in> set ws. \<exists>p s. t = p @ w @ s}"
  by (simp add: countHits_card includesStr_iff)

text \<open>
  C10: the classifier lower-cases the whole text (\<open>A\<close> .. \<open>Z\<close> become \<open>a\<close> .. \<open>z\<close>) and
  counts, for each lexicon, the words that occur in it as a substring, each word at most
  once however often it occurs; the mood follows from the three counts by the ordered
  rules. So a count never exceeds the size of its lexicon, three occurrences of \<open>happy\<close>
  in any case count once, and \<open>unhappy\<close> (also written \<open>UNHAPPY\<close>), which contains
  \<open>happy\<close> and no negative or neutral keyword, is classified \<open>positive\<close>.
\<close>

theorem C10_substring_matching:
  "detectMoodFromKeywords content =
     (let text = map (\<lambda>c. if 65 \<le> (of_char c :: nat) \<and> (of_char c :: nat) \<le> 90
                          then char_of ((of_char c :: nat) + 32) else c) content;
          positiveCount =
            card {w \<in> set [''happy'', ''excited'', ''good'', ''great'', ''amazing'', ''wonderful'',
                     ''love'', ''joy'', ''grateful'', ''blessed'', ''awesome'', ''fantastic'',
                     ''pleased'', ''delighted'', ''optimistic'']. \<exists>p s. text = p @ w @ s};
          negativeCount =
            card {w \<in> set [''sad'', ''angry'', ''frustrated'', ''upset'', ''disappointed'',
                     ''worried'', ''anxious'', ''stressed'', ''terrible'', ''awful'', ''hate'',
                     ''depressed'', ''annoyed'', ''irritated'', ''overwhelmed'']. \<exists>p s. text = p @ w @ s};
          neutralCount =
            card {w \<in> set [''okay'', ''fine'', ''normal'', ''regular'', ''usual'', ''average''].
                    \<exists>p s. text = p @ w @ s}
      in if positiveCount > negativeCount \<and> positiveCount > neutralCount then ''positive''
         else if negativeCount > positiveCount \<and> negativeCount > neutralCount then ''negative''
         else if negativeCount > 0 \<and> positiveCount = 0 then ''anxious''
         else if positiveCount > 0 \<and> negativeCount = 0 then ''content''
         else ''neutral'')
   \<and> countHits (toLowerCase content) positiveWords 0 \<le> 15
   \<and> countHits (toLowerCase ''Happy happy HAPPY'') positiveWords 0 = 1
   \<and> detectMoodFromKeywords ''unhappy'' = ''positive''
   \<and> detectMoodFromKeywords ''UNHAPPY'' = ''positive''"
proof -
  have general: "detectMoodFromKeywords content =
     (let text = map (\<lambda>c. if 65 \<le> (of_char c :: nat) \<and> (of_char c :: nat) \<le> 90
                          then char_of ((of_char c :: nat) + 32) else c) content;
          positiveCount = card {w \<in> set positiveWords. \<exists>p s. text = p @ w @ s};
          negativeCount = card {w \<in> set negativeWords. \<exists>p s. text = p @ w @ s};
          neutralCount = card {w \<in> set neutralWords. \<exists>p s. text = p @ w @ s}
      in if positiveCount > negativeCount \<and> positiveCount > neutralCount then ''positive''
         else if negativeCount > positiveCount \<and> negativeCount > neutralCount then ''negative''
         else if negativeCount > 0 \<and> positiveCount = 0 then ''anxious''
         else if positiveCount > 0 \<and> negativeCount = 0 then ''content''
         else ''neutral'')"
    unfolding detectMoodFromKeywords_def toLowerCase_map
    by (simp only: countHits_substrings [OF distinct_lexicons(1)]
          countHits_substrings [OF distinct_lexicons(2)]
          countHits_substrings [OF distinct_lexicons(3)])
  have le: "countHits (toLowerCase content) positiveWords 0 \<le> length positiveWords"
    by (simp add: countHits_filter)
  have "length positiveWords = 15"
    by (simp add: positiveWords_def)
  with le have bound: "countHits (toLowerCase content) positiveWords 0 \<le> 15"
    by simp
  have lower: "detectMoodFromKeywords ''unhappy'' = ''positive''"
    by (simp add: detectMoodFromKeywords_def unhappy_counts)
  have upper: "detectMoodFromKeywords ''UNHAPPY'' = ''positive''"
    by (simp add: detectMoodFromKeywords_def upper_counts)
  from general [unfolded positiveWords_def negativeWords_def neutralWords_def]
    bound happy_thrice lower upper
  show ?thesis
    by (intro conjI)
qed

section \<open>Properties of the statistics recomputation\<close>














lemma updated_user_fields:
  assumes "u \<in> set (users (updateUserStats tz now userId db))" and "u_id u = userId"
  shows "u_totalEntries u = Some (int (length (filter isCompleted (userEntries db userId))))"
    and "u_wordsWritten u
           = Some (foldl (\<lambda>sum entry. sum + wordCountOr0 entry) 0 (userEntries db userId))"
    and "u_currentStreak u = Some (currentStreak (streakLoop tz now
           (sortByCreatedAtDesc (filter isCompleted (userEntries db userId))) initialVars))"
    and "u_longestStreak u =
           Some (max (longestStreak (streakLoop tz now
                   (sortByCreatedAtDesc (filter isCompleted (userEntries db userId))) initialVars))
                 (streakCount (streakLoop tz now
                   (sortByCreatedAtDesc (filter isCompleted (userEntries db userId))) initialVars)))"
proof -
  define total where "total = int (length (filter isCompleted (userEntries db userId)))"
  define written where
    "written = foldl (\<lambda>sum entry. sum + wordCountOr0 entry) 0 (userEntries db userId)"
  define sorted_es where
    "sorted_es = sortByCreatedAtDesc (filter isCompleted (userEntries db userId))"
  define v where "v = streakLoop tz now sorted_es initialVars"
  define upd where "upd = (\<lambda>x::User. x\<lparr>u_totalEntries := Some total, u_wordsWritten := Some written,
      u_currentStreak := Some (currentStreak v),
      u_longestStreak := Some (max (longestStreak v) (streakCount v)),
      u_lastEntryDate := (case sorted_es of [] \<Rightarrow> None | e # _ \<Rightarrow> je_createdAt e),
      u_updatedAt := Some now\<rparr>)"
  have "users (updateUserStats tz now userId db)
          = map (\<lambda>x. if u_id x = userId then upd x else x) (users db)"
    by (simp add: updateUserStats_def Let_def upd_def v_def sorted_es_def written_def total_def)
  with assms(1) have "u \<in> set (map (\<lambda>x. if u_id x = userId then upd x else x) (users db))"
    by simp
  then obtain x where x: "u = (if u_id x = userId then upd x else x)"
    unfolding set_map by blast
  have "u_id (upd x) = u_id x"
    by (simp add: upd_def)
  with x assms(2) have "u_id x = userId"
    by (simp split: if_splits)
  with x have u: "u = upd x"
    by simp
  show "u_totalEntries u = Some (int (length (filter isCompleted (userEntries db userId))))"
    by (simp add: u upd_def total_def)
  show "u_wordsWritten u
           = Some (foldl (\<lambda>sum entry. sum + wordCountOr0 entry) 0 (userEntries db userId))"
    by (simp add: u upd_def written_def)
  show "u_currentStreak u = Some (currentStreak (streakLoop tz now
           (sortByCreatedAtDesc (filter isCompleted (userEntries db userId))) initialVars))"
    by (simp add: u upd_def v_def sorted_es_def)
  show "u_longestStreak u =
           Some (max (longestStreak (streakLoop tz now
                   (sortByCreatedAtDesc (filter isCompleted (userEntries db userId))) initialVars))
                 (streakCount (streakLoop tz now
                   (sortByCreatedAtDesc (filter isCompleted (userEntries db userId))) initialVars)))"
    by (simp add: u upd_def v_def sorted_es_def)
qed







lemma foldl_wordCount:
  "foldl (\<lambda>sum entry. sum + wordCountOr0 entry) a es = a + sum_list (map wordCountOr0 es)"
  by (induction es arbitrary: a) simp_all

lemmas example_defs =
  newUser_def plainEntry_def jan_def msPerDay_def

lemmas stats_defs =
  updateUserStats_def userEntries_def isCompleted_def wordCountOr0_def sortByCreatedAtDesc_def
  getTime_def initialVars_def streakBody_def entryDay_def setHoursZero_def isToday_def
  isYesterday_def Let_def

text \<open>
  C1 (the code at the claim's input): with one completed entry on each of 2024-01-01,
  2024-01-02 and 2024-01-03 and today 2024-01-03, the recomputation stores
  \<open>longestStreak = 3\<close> but \<open>currentStreak = 1\<close>: the first entry sets \<open>currentStreak\<close>
  to 1, and the assignment \<open>currentStreak = streakCount\<close> is guarded by
  \<open>currentStreak === 0\<close>, so it never runs afterwards.
\<close>

theorem C1_three_day_run_stores_one:
  "map (\<lambda>u. (u_currentStreak u, u_longestStreak u))
     (users (updateUserStats 0 (jan 3 + 3600000) ''u1'' threeDays)) = [(Some 1, Some 3)]"
  by (simp add: threeDays_def example_defs stats_defs)

lemma streakBody_bounds:
  assumes "0 \<le> n"
      and "0 \<le> currentStreak v \<and> currentStreak v \<le> n"
      and "0 \<le> longestStreak v \<and> longestStreak v \<le> n"
      and "0 \<le> streakCount v \<and> streakCount v \<le> n"
  shows "0 \<le> currentStreak (streakBody tz now e v) \<and> currentStreak (streakBody tz now e v) \<le> n + 1"
    and "0 \<le> longestStreak (streakBody tz now e v) \<and> longestStreak (streakBody tz now e v) \<le> n + 1"
    and "0 \<le> streakCount (streakBody tz now e v) \<and> streakCount (streakBody tz now e v) \<le> n + 1"
  using assms by (auto simp add: streakBody_def Let_def split: option.split)

lemma streakLoop_bounds:
  assumes "0 \<le> n"
      and "0 \<le> currentStreak v \<and> currentStreak v \<le> n"
      and "0 \<le> longestStreak v \<and> longestStreak v \<le> n"
      and "0 \<le> streakCount v \<and> streakCount v \<le> n"
  shows "0 \<le> currentStreak (streakLoop tz now es v)
         \<and> currentStreak (streakLoop tz now es v) \<le> n + int (length es)
         \<and> 0 \<le> longestStreak (streakLoop tz now es v)
         \<and> longestStreak (streakLoop tz now es v) \<le> n + int (length es)
         \<and> 0 \<le> streakCount (streakLoop tz now es v)
         \<and> streakCount (streakLoop tz now es v) \<le> n + int (length es)"
  using assms
proof (induction es arbitrary: v n)
  case Nil
  then show ?case by simp
next
  case (Cons e es)
  have "0 \<le> n + 1"
    using Cons.prems(1) by simp
  from Cons.IH [OF this streakBody_bounds [OF Cons.prems, of tz now e]]
  show ?case
    by (simp add: add.assoc)
qed

lemma wordCountOr0_case:
  "wordCountOr0 = (\<lambda>e. case je_wordCount e of None \<Rightarrow> 0 | Some n \<Rightarrow> n)"
  by (rule ext) (simp add: wordCountOr0_def)

lemma map_wordCount:
  "map wordCountOr0 es = map (\<lambda>e. case je_wordCount e of None \<Rightarrow> 0 | Some n \<Rightarrow> n) es"
  by (simp add: wordCountOr0_def)

lemma completed_filter:
  "filter isCompleted (filter (\<lambda>e. je_userId e = userId) es)
     = filter (\<lambda>e. je_userId e = userId \<and> je_isCompleted e = Some True) es"
  by (induction es) (auto simp add: isCompleted_def)

lemma tryUpdateUserStats_cases:
  assumes size: "length (filter (\<lambda>e. je_userId e = userId) (journalEntries db)) \<le> 4194304"
  shows "tryUpdateUserStats tz now userId db =
           (if fitsInteger (sum_list (map wordCountOr0
                  (filter (\<lambda>e. je_userId e = userId) (journalEntries db))))
            then Inr (updateUserStats tz now userId db) else Inl DatabaseError)"
proof -
  let ?entries = "filter (\<lambda>e. je_userId e = userId) (journalEntries db)"
  let ?done = "sortByCreatedAtDesc (filter isCompleted ?entries)"
  let ?v = "streakLoop tz now ?done initialVars"
  have len: "int (length ?done) \<le> 4194304"
  proof -
    have "length ?done = length (filter isCompleted ?entries)"
      by (simp add: sortByCreatedAtDesc_def)
    also have "\<dots> \<le> length ?entries"
      by (rule length_filter_le)
    finally show ?thesis
      using size by simp
  qed
  have bounds: "0 \<le> currentStreak ?v \<and> currentStreak ?v \<le> 0 + int (length ?done)
        \<and> 0 \<le> longestStreak ?v \<and> longestStreak ?v \<le> 0 + int (length ?done)
        \<and> 0 \<le> streakCount ?v \<and> streakCount ?v \<le> 0 + int (length ?done)"
    by (rule streakLoop_bounds) (simp_all add: initialVars_def)
  have fit1: "fitsInteger (currentStreak ?v)"
    unfolding fitsInteger_def using bounds len by linarith
  have fit2: "fitsInteger (max (longestStreak ?v) (streakCount ?v))"
    unfolding fitsInteger_def using bounds len by linarith
  have fit3: "fitsInteger (int (length (filter isCompleted ?entries)))"
  proof -
    have "length (filter isCompleted ?entries) \<le> length ?entries"
      by (rule length_filter_le)
    with size have "int (length (filter isCompleted ?entries)) \<le> 4194304"
      by linarith
    then show ?thesis
      unfolding fitsInteger_def by linarith
  qed
  show ?thesis
    unfolding tryUpdateUserStats_def Let_def foldl_wordCount
    using fit1 fit2 fit3 by (simp only: simp_thms if_True add_0)
qed

text \<open>
  C4 (as the code has it): for a history whose word counts are 32-bit integers and that
  has at most 4194304 entries of the user (JavaScript then adds the counts exactly),
  \<open>wordsWritten\<close> is the sum of \<open>wordCount\<close> (a missing count as 0) over all of the
  user's entries, completed or not, and \<open>totalEntries\<close> is the number of the completed
  ones. The numbers are stored exactly when the sum fits the 32-bit column; otherwise the
  UPDATE is refused and the call throws.
\<close>

theorem C4_words_written_all_entries:
  assumes "\<forall>e \<in> set (journalEntries db). je_userId e = userId \<longrightarrow>
             (case je_wordCount e of None \<Rightarrow> True
              | Some n \<Rightarrow> - 2147483648 \<le> n \<and> n \<le> 2147483647)"
      and "length (filter (\<lambda>e. je_userId e = userId) (journalEntries db)) \<le> 4194304"
  shows "(tryUpdateUserStats tz now userId db = Inr db' \<and> u \<in> set (users db') \<and> u_id u = userId
          \<longrightarrow> u_wordsWritten u =
                Some (sum_list (map (\<lambda>e. case je_wordCount e of None \<Rightarrow> 0 | Some n \<Rightarrow> n)
                        (filter (\<lambda>e. je_userId e = userId) (journalEntries db))))
              \<and> u_totalEntries u =
                Some (int (length (filter (\<lambda>e. je_userId e = userId \<and> je_isCompleted e = Some True)
                                     (journalEntries db)))))
         \<and> (- 2147483648 \<le> sum_list (map (\<lambda>e. case je_wordCount e of None \<Rightarrow> 0 | Some n \<Rightarrow> n)
                                (filter (\<lambda>e. je_userId e = userId) (journalEntries db)))
            \<and> sum_list (map (\<lambda>e. case je_wordCount e of None \<Rightarrow> 0 | Some n \<Rightarrow> n)
                   (filter (\<lambda>e. je_userId e = userId) (journalEntries db))) \<le> 2147483647
            \<longrightarrow> (\<exists>stored. tryUpdateUserStats tz now userId db = Inr stored))
         \<and> (\<not> (- 2147483648 \<le> sum_list (map (\<lambda>e. case je_wordCount e of None \<Rightarrow> 0 | Some n \<Rightarrow> n)
                                   (filter (\<lambda>e. je_userId e = userId) (journalEntries db)))
               \<and> sum_list (map (\<lambda>e. case je_wordCount e of None \<Rightarrow> 0 | Some n \<Rightarrow> n)
                      (filter (\<lambda>e. je_userId e = userId) (journalEntries db))) \<le> 2147483647)
            \<longrightarrow> tryUpdateUserStats tz now userId db = Inl DatabaseError)"
proof -
  let ?S = "sum_list (map (\<lambda>e. case je_wordCount e of None \<Rightarrow> 0 | Some n \<Rightarrow> n)
              (filter (\<lambda>e. je_userId e = userId) (journalEntries db)))"
  note cases = tryUpdateUserStats_cases [OF assms(2), of tz now, unfolded wordCountOr0_case fitsInteger_def]
  have stored: "u_wordsWritten u = Some ?S
      \<and> u_totalEntries u =
          Some (int (length (filter (\<lambda>e. je_userId e = userId \<and> je_isCompleted e = Some True)
                               (journalEntries db))))"
    if "tryUpdateUserStats tz now userId db = Inr db'" and "u \<in> set (users db')"
      and "u_id u = userId"
  proof -
    from that(1) cases have "db' = updateUserStats tz now userId db"
      by (simp split: if_splits)
    with that(2) have "u \<in> set (users (updateUserStats tz now userId db))"
      by simp
    from updated_user_fields(1,2) [OF this that(3)]
    have "u_totalEntries u
            = Some (int (length (filter isCompleted
                (filter (\<lambda>e. je_userId e = userId) (journalEntries db)))))"
      and "u_wordsWritten u
            = Some (sum_list (map wordCountOr0
                (filter (\<lambda>e. je_userId e = userId) (journalEntries db))))"
      by (simp_all add: foldl_wordCount userEntries_def)
    then show ?thesis
      unfolding completed_filter map_wordCount by simp
  qed
  from cases have "- 2147483648 \<le> ?S \<and> ?S \<le> 2147483647
      \<longrightarrow> (\<exists>stored. tryUpdateUserStats tz now userId db = Inr stored)"
    by simp
  moreover from cases have "\<not> (- 2147483648 \<le> ?S \<and> ?S \<le> 2147483647)
      \<longrightarrow> tryUpdateUserStats tz now userId db = Inl DatabaseError"
    by simp
  ultimately show ?thesis
    using stored by blast
qed

theorem C4_witness:
  "tryUpdateUserStats 0 (jan 3) ''u1'' draftAndDone
     = Inr (updateUserStats 0 (jan 3) ''u1'' draftAndDone)
   \<and> u_wordsWritten (hd (users (updateUserStats 0 (jan 3) ''u1'' draftAndDone))) = Some 17
   \<and> u_totalEntries (hd (users (updateUserStats 0 (jan 3) ''u1'' draftAndDone))) = Some 1
   \<and> tryUpdateUserStats 0 (jan 3) ''u1'' hugeCounts = Inl DatabaseError"
proof -
  let ?db' = "updateUserStats 0 (jan 3) ''u1'' draftAndDone"
  have rows: "\<forall>e \<in> set (journalEntries draftAndDone). je_userId e = ''u1'' \<longrightarrow>
             (case je_wordCount e of None \<Rightarrow> True
              | Some n \<Rightarrow> - 2147483648 \<le> n \<and> n \<le> 2147483647)"
    by (simp add: draftAndDone_def plainEntry_def)
  have size: "length (filter (\<lambda>e. je_userId e = ''u1'') (journalEntries draftAndDone)) \<le> 4194304"
    by (simp add: draftAndDone_def plainEntry_def)
  have rows2: "\<forall>e \<in> set (journalEntries hugeCounts). je_userId e = ''u1'' \<longrightarrow>
             (case je_wordCount e of None \<Rightarrow> True
              | Some n \<Rightarrow> - 2147483648 \<le> n \<and> n \<le> 2147483647)"
    by (simp add: hugeCounts_def plainEntry_def)
  have size2: "length (filter (\<lambda>e. je_userId e = ''u1'') (journalEntries hugeCounts)) \<le> 4194304"
    by (simp add: hugeCounts_def plainEntry_def)
  have sum1: "sum_list (map (\<lambda>e. case je_wordCount e of None \<Rightarrow> 0 | Some n \<Rightarrow> n)
                (filter (\<lambda>e. je_userId e = ''u1'') (journalEntries draftAndDone))) = 17"
    by (simp add: draftAndDone_def plainEntry_def)
  have sum2: "sum_list (map (\<lambda>e. case je_wordCount e of None \<Rightarrow> 0 | Some n \<Rightarrow> n)
                (filter (\<lambda>e. je_userId e = ''u1'') (journalEntries hugeCounts))) = 4000000000"
    by (simp add: hugeCounts_def plainEntry_def)
  have done1: "int (length (filter (\<lambda>e. je_userId e = ''u1'' \<and> je_isCompleted e = Some True)
                       (journalEntries draftAndDone))) = 1"
    by (simp add: draftAndDone_def plainEntry_def)
  have run: "tryUpdateUserStats 0 (jan 3) ''u1'' draftAndDone = Inr ?db'"
    by (simp add: tryUpdateUserStats_def draftAndDone_def example_defs stats_defs fitsInteger_def)
  have mem: "hd (users ?db') \<in> set (users ?db')"
    by (simp add: updateUserStats_def draftAndDone_def Let_def)
  have uid: "u_id (hd (users ?db')) = ''u1''"
    by (simp add: updateUserStats_def draftAndDone_def newUser_def Let_def)
  from C4_words_written_all_entries [OF rows size, of 0 "jan 3" ?db' "hd (users ?db')"]
    run mem uid
  have "u_wordsWritten (hd (users ?db')) = Some 17 \<and> u_totalEntries (hd (users ?db')) = Some 1"
    by (simp add: sum1 done1)
  moreover from C4_words_written_all_entries [OF rows2 size2, of 0 "jan 3"]
  have "tryUpdateUserStats 0 (jan 3) ''u1'' hugeCounts = Inl DatabaseError"
    by (simp add: sum2)
  ultimately show ?thesis
    using run by simp
qed

text \<open>
  C4, counterexample to the claim as stated: with a draft of 5 words and a completed
  entry of 12 words the stored \<open>wordsWritten\<close> is 17, not the sum over the completed
  entries (12).
\<close>

theorem C4_counterexample:
  "tryUpdateUserStats 0 (jan 3) ''u1'' draftAndDone
     = Inr (updateUserStats 0 (jan 3) ''u1'' draftAndDone)
   \<and> u_wordsWritten (hd (users (updateUserStats 0 (jan 3) ''u1'' draftAndDone))) = Some 17
   \<and> sum_list (map wordCountOr0 (filter isCompleted (userEntries draftAndDone ''u1''))) = 12"
  by (simp add: tryUpdateUserStats_def draftAndDone_def example_defs stats_defs fitsInteger_def)





section \<open>Properties of the entry pipeline\<close>

lemma longText_words: "countWords longText = 13"
  by code_simp

lemma short_words: "countWords ''too short now'' = 3"
  by code_simp

lemma elevenWords_words: "countWords elevenWords = 11"
  by code_simp

lemma control_words:
  "countWords (''a'' @ [char_of (9 :: nat)] @ ''b'' @ [char_of (10 :: nat), char_of (13 :: nat)]
               @ ''c'' @ [char_of (11 :: nat), char_of (12 :: nat)] @ ''d'' @ '' '') = 4"
  by code_simp

lemma longText_mood: "detectMoodFromKeywords longText = ''positive''"
  by code_simp

lemma longText_differs: "longText \<noteq> ''a short note''" "longText \<noteq> []"
  by (simp_all add: longText_def)

lemma longText_storable:
  "storableText longText" "storableText ''positive''" "storableText ''u1''"
  by code_simp+

lemma journalEntries_updateUserStats:
  "journalEntries (updateUserStats tz now userId db) = journalEntries db"
  by (simp add: updateUserStats_def Let_def)

lemma users_ids_updateUserStats:
  "map u_id (users (updateUserStats tz now userId db)) = map u_id (users db)"
  by (simp add: updateUserStats_def Let_def)

lemma tryUpdateUserStats_Inr:
  "tryUpdateUserStats tz now userId db = Inr db' \<Longrightarrow> db' = updateUserStats tz now userId db"
  by (simp add: tryUpdateUserStats_def Let_def split: if_splits)

lemma oneEntry_eq:
  "oneEntry = \<lparr>users = [(newUser ''u1'')\<lparr>u_totalEntries := Some 1, u_wordsWritten := Some 3,
                   u_currentStreak := Some 1, u_longestStreak := Some 1,
                   u_lastEntryDate := Some (jan 3), u_updatedAt := Some (jan 3)\<rparr>],
     journalEntries = [plainEntry ''e1'' ''u1'' 3 True (jan 3)\<lparr>je_content := ''a short note''\<rparr>],
     weeklyInsights = []\<rparr>"
  by (simp add: oneEntry_def createJournalEntry_def emptyDb_def withDefault_def example_defs
        stats_defs storeScore_def storableRow_def storableText_def tryUpdateUserStats_def
        fitsInteger_def)

text \<open>
  C2 (the code at a failing input): the DELETE route removes the row and answers, and
  never touches the \<open>users\<close> table. After user \<open>u1\<close> has created one completed
  entry and deleted it again, the stored statistics still count that entry (streaks 1,
  one entry, 3 words, a last entry date), where a recomputation over the remaining
  entries gives 0, 0, 0, 0 and no date. \<open>createJournalEntry\<close> and
  \<open>updateJournalEntry\<close> both call \<open>updateUserStats\<close>; \<open>deleteJournalEntry\<close> does not.
\<close>

theorem C2_delete_leaves_stats_stale:
  "users (snd (deleteJournalEntryRoute userId entryId db)) = users db
   \<and> fst (deleteJournalEntryRoute ''u1'' ''e1'' oneEntry) = Json ''Entry deleted successfully''
   \<and> journalEntries (snd (deleteJournalEntryRoute ''u1'' ''e1'' oneEntry)) = []
   \<and> map (\<lambda>u. (u_currentStreak u, u_longestStreak u, u_totalEntries u, u_wordsWritten u,
                u_lastEntryDate u))
        (users (snd (deleteJournalEntryRoute ''u1'' ''e1'' oneEntry)))
      = [(Some 1, Some 1, Some 1, Some 3, Some (jan 3))]
   \<and> map (\<lambda>u. (u_currentStreak u, u_longestStreak u, u_totalEntries u, u_wordsWritten u,
                u_lastEntryDate u))
        (users (updateUserStats 0 (jan 4) ''u1''
                  (snd (deleteJournalEntryRoute ''u1'' ''e1'' oneEntry))))
      = [(Some 0, Some 0, Some 0, Some 0, None)]"
proof -
  have "users (snd (deleteJournalEntryRoute userId entryId db)) = users db"
    by (simp add: deleteJournalEntryRoute_def deleteJournalEntry_def split: option.split)
  moreover have "deleteJournalEntryRoute ''u1'' ''e1'' oneEntry
      = (Json ''Entry deleted successfully'', oneEntry\<lparr>journalEntries := []\<rparr>)"
    by (simp add: oneEntry_eq deleteJournalEntryRoute_def deleteJournalEntry_def
          getJournalEntry_def plainEntry_def)
  ultimately show ?thesis
    by (simp add: oneEntry_eq newUser_def stats_defs)
qed

text \<open>
  C3 (the code at a failing input): with the provider down, an edit by the owner whose
  new content has 13 words and differs from the stored content is answered with status
  500 and nothing is stored: the PATCH route calls \<open>analyzeSentiment\<close> outside any inner
  \<open>try\<close>. The POST route with the same content succeeds on the keyword fallback.
\<close>

theorem C3_edit_surfaces_provider_failure:
  "patchJournalEntry downAi 0 (jan 4) ''u1'' ''e1'' (emptyBody\<lparr>b_content := Some longText\<rparr>) oneEntry
     = (Failure 500 ''Failed to update journal entry'', oneEntry)
   \<and> (\<exists>entry db'.
         postJournalEntries downAi 0 (jan 4) ''e2'' ''u1'' (emptyBody\<lparr>b_content := Some longText\<rparr>)
           oneEntry = (Json entry, db')
         \<and> je_mood entry = Some ''positive'' \<and> je_sentimentScore entry = Some 0
         \<and> je_sentimentLabel entry = Some ''positive'' \<and> je_themes entry = Some [])"
proof
  show "patchJournalEntry downAi 0 (jan 4) ''u1'' ''e1'' (emptyBody\<lparr>b_content := Some longText\<rparr>)
          oneEntry = (Failure 500 ''Failed to update journal entry'', oneEntry)"
    by (simp add: patchJournalEntry_def getJournalEntry_def oneEntry_eq plainEntry_def
          emptyBody_def longText_words longText_differs analyzeSentiment_def downAi_def)
  show "\<exists>entry db'.
         postJournalEntries downAi 0 (jan 4) ''e2'' ''u1'' (emptyBody\<lparr>b_content := Some longText\<rparr>)
           oneEntry = (Json entry, db')
         \<and> je_mood entry = Some ''positive'' \<and> je_sentimentScore entry = Some 0
         \<and> je_sentimentLabel entry = Some ''positive'' \<and> je_themes entry = Some []"
    by (simp add: postJournalEntries_def parseInsert_def emptyBody_def longText_words
          analyzeSentiment_def downAi_def useFallbacks_def longText_mood createJournalEntry_def
          Let_def storeScore_def roundHundredths_def storableRow_def longText_storable
          oneEntry_eq example_defs tryUpdateUserStats_def fitsInteger_def stats_defs
          withDefault_def)
qed


lemma storeScore_Some:
  "storeScore x = Some score \<Longrightarrow>
   score = (case x of None \<Rightarrow> None
            | Some r \<Rightarrow> Some (real_of_int (if 0 \<le> r then \<lfloor>r * 100 + 1 / 2\<rfloor>
                                            else - \<lfloor>- r * 100 + 1 / 2\<rfloor>) / 100))"
  by (auto simp add: storeScore_def roundHundredths_def Let_def split: option.splits if_splits)

lemma createJournalEntry_Inr:
  assumes "createJournalEntry tz now newId entry db = (Inr row, db')"
  shows "row \<in> set (journalEntries db')"
    and "je_wordCount row = withDefault (ie_wordCount entry) 0"
    and "je_sentimentLabel row = ie_sentimentLabel entry"
    and "je_mood row = ie_mood entry"
    and "je_themes row = ie_themes entry"
    and "storeScore (ie_sentimentScore entry) = Some (je_sentimentScore row)"
  using assms
  by (auto simp add: createJournalEntry_def Let_def journalEntries_updateUserStats
        split: option.splits if_splits sum.splits dest!: tryUpdateUserStats_Inr)

lemma post_short_route:
  assumes "b_content body = Some c" and "countWords c \<le> 10"
  shows "postJournalEntries ai tz now newId userId body db =
           (case createJournalEntry tz now newId
                   \<lparr>ie_userId = userId, ie_title = b_title body, ie_content = c,
                    ie_wordCount = Some (int (countWords c)),
                    ie_sentimentScore = b_sentimentScore body,
                    ie_sentimentLabel = b_sentimentLabel body, ie_aiPrompt = b_aiPrompt body,
                    ie_mood = b_mood body, ie_themes = b_themes body,
                    ie_isCompleted = b_isCompleted body\<rparr> db of
              (Inl _, db') \<Rightarrow> (Failure 500 ''Failed to create journal entry'', db')
            | (Inr entry, db') \<Rightarrow> (Json entry, db'))"
  using assms by (simp add: postJournalEntries_def parseInsert_def Let_def)

lemma post_short:
  assumes "b_content body = Some c" and "countWords c \<le> 10"
  shows "postJournalEntries ai tz now newId userId body db
           = postJournalEntries ai' tz now newId userId body db"
    and "postJournalEntries ai tz now newId userId body db = (Json entry, db') \<Longrightarrow>
         entry \<in> set (journalEntries db')
         \<and> je_wordCount entry = Some (int (countWords c))
         \<and> je_sentimentLabel entry = b_sentimentLabel body
         \<and> je_mood entry = b_mood body
         \<and> je_themes entry = b_themes body
         \<and> je_sentimentScore entry =
             (case b_sentimentScore body of None \<Rightarrow> None
              | Some x \<Rightarrow> Some (real_of_int (if 0 \<le> x then \<lfloor>x * 100 + 1 / 2\<rfloor>
                                              else - \<lfloor>- x * 100 + 1 / 2\<rfloor>) / 100))"
proof -
  show "postJournalEntries ai tz now newId userId body db
           = postJournalEntries ai' tz now newId userId body db"
    by (simp only: post_short_route [OF assms])
next
  let ?data = "\<lparr>ie_userId = userId, ie_title = b_title body, ie_content = c,
                    ie_wordCount = Some (int (countWords c)),
                    ie_sentimentScore = b_sentimentScore body,
                    ie_sentimentLabel = b_sentimentLabel body, ie_aiPrompt = b_aiPrompt body,
                    ie_mood = b_mood body, ie_themes = b_themes body,
                    ie_isCompleted = b_isCompleted body\<rparr>"
  assume "postJournalEntries ai tz now newId userId body db = (Json entry, db')"
  then have created: "createJournalEntry tz now newId ?data db = (Inr entry, db')"
    unfolding post_short_route [OF assms]
    by (auto split: prod.splits sum.splits)
  from createJournalEntry_Inr [OF created] storeScore_Some [of "b_sentimentScore body"]
  show "entry \<in> set (journalEntries db')
         \<and> je_wordCount entry = Some (int (countWords c))
         \<and> je_sentimentLabel entry = b_sentimentLabel body
         \<and> je_mood entry = b_mood body
         \<and> je_themes entry = b_themes body
         \<and> je_sentimentScore entry =
             (case b_sentimentScore body of None \<Rightarrow> None
              | Some x \<Rightarrow> Some (real_of_int (if 0 \<le> x then \<lfloor>x * 100 + 1 / 2\<rfloor>
                                              else - \<lfloor>- x * 100 + 1 / 2\<rfloor>) / 100))"
    by (simp add: withDefault_def)
qed

lemma setEntry_Some:
  assumes "setEntry db b now row = Some row'"
  shows "je_id row' = je_id row"
    and "je_sentimentLabel row' = orKeep (b_sentimentLabel b) (je_sentimentLabel row)"
    and "je_mood row' = orKeep (b_mood b) (je_mood row)"
    and "je_themes row' = orKeep (b_themes b) (je_themes row)"
    and "\<exists>score. storeScore (b_sentimentScore b) = Some score
           \<and> je_sentimentScore row' = orKeep score (je_sentimentScore row)"
  using assms
  by (auto simp add: setEntry_def Let_def split: option.splits if_splits)

lemma those_find:
  assumes "those (map (\<lambda>row. if je_id row = i then setEntry db b now row else Some row) xs)
             = Some rows"
      and "find (\<lambda>row. je_id row = i) xs = Some e"
  shows "\<exists>e'. setEntry db b now e = Some e' \<and> find (\<lambda>row. je_id row = i) rows = Some e'"
  using assms
proof (induction xs arbitrary: rows)
  case Nil
  then show ?case by simp
next
  case (Cons x xs)
  show ?case
  proof (cases "je_id x = i")
    case True
    with Cons.prems(2) have "x = e" by simp
    with True Cons.prems(1) obtain e' rest where "setEntry db b now e = Some e'"
      and "rows = e' # rest"
      by (auto split: option.splits)
    moreover from this have "je_id e' = i"
      using setEntry_Some(1) [of db b now e e'] True \<open>x = e\<close> by simp
    ultimately show ?thesis by simp
  next
    case False
    with Cons.prems(1) obtain rest where rest: "those (map (\<lambda>row. if je_id row = i
        then setEntry db b now row else Some row) xs) = Some rest" and rows: "rows = x # rest"
      by (auto split: option.splits)
    from False Cons.prems(2) have "find (\<lambda>row. je_id row = i) xs = Some e"
      by simp
    from Cons.IH [OF rest this] False rows show ?thesis
      by simp
  qed
qed

lemma updateJournalEntry_Inr:
  assumes found: "find (\<lambda>row. je_id row = i) (journalEntries db) = Some e"
      and upd: "updateJournalEntry tz now i b db = (Inr r, db')"
  shows "\<exists>e'. r = Some e' \<and> setEntry db b now e = Some e'
            \<and> find (\<lambda>row. je_id row = i) (journalEntries db') = Some e'"
proof -
  from upd obtain rows where rows: "those (map (\<lambda>row. if je_id row = i
      then setEntry db b now row else Some row) (journalEntries db)) = Some rows"
    by (auto simp add: updateJournalEntry_def split: option.splits)
  from those_find [OF rows found] obtain e' where e': "setEntry db b now e = Some e'"
    and f: "find (\<lambda>row. je_id row = i) rows = Some e'"
    by blast
  from upd rows f have "r = Some e'" and "journalEntries db' = rows"
    by (auto simp add: updateJournalEntry_def Let_def journalEntries_updateUserStats
          split: sum.splits dest!: tryUpdateUserStats_Inr)
  with e' f show ?thesis
    by simp
qed

lemma patch_short_route:
  assumes "find (\<lambda>row. je_id row = entryId) (journalEntries db) = Some existing"
      and "je_userId existing = userId"
      and "b_content body = Some c"
      and "countWords c \<le> 10"
  shows "patchJournalEntry ai tz now userId entryId body db =
           (case updateJournalEntry tz now entryId
                   (if c = [] then body else body\<lparr>b_wordCount := Some (int (countWords c))\<rparr>) db of
              (Inl _, db') \<Rightarrow> (Failure 500 ''Failed to update journal entry'', db')
            | (Inr entry, db') \<Rightarrow> (Json entry, db'))"
  using assms by (simp add: patchJournalEntry_def getJournalEntry_def Let_def)

lemma patch_short:
  assumes found: "find (\<lambda>row. je_id row = entryId) (journalEntries db) = Some existing"
      and owner: "je_userId existing = userId"
      and content: "b_content body = Some c"
      and short: "countWords c \<le> 10"
  shows "patchJournalEntry ai tz now userId entryId body db
           = patchJournalEntry ai' tz now userId entryId body db"
    and "patchJournalEntry ai tz now userId entryId body db = (Json r, db') \<Longrightarrow>
         (\<exists>entry. r = Some entry
            \<and> find (\<lambda>row. je_id row = entryId) (journalEntries db') = Some entry
            \<and> je_sentimentLabel entry =
                (case b_sentimentLabel body of None \<Rightarrow> je_sentimentLabel existing
                 | Some l \<Rightarrow> Some l)
            \<and> je_mood entry = (case b_mood body of None \<Rightarrow> je_mood existing | Some m \<Rightarrow> Some m)
            \<and> je_themes entry =
                (case b_themes body of None \<Rightarrow> je_themes existing | Some ts \<Rightarrow> Some ts)
            \<and> je_sentimentScore entry =
                (case b_sentimentScore body of None \<Rightarrow> je_sentimentScore existing
                 | Some x \<Rightarrow> Some (real_of_int (if 0 \<le> x then \<lfloor>x * 100 + 1 / 2\<rfloor>
                                                 else - \<lfloor>- x * 100 + 1 / 2\<rfloor>) / 100)))"
proof -
  show "patchJournalEntry ai tz now userId entryId body db
           = patchJournalEntry ai' tz now userId entryId body db"
    by (simp only: patch_short_route [OF assms])
next
  define updateData where
    "updateData = (if c = [] then body else body\<lparr>b_wordCount := Some (int (countWords c))\<rparr>)"
  have same: "b_sentimentScore updateData = b_sentimentScore body"
    "b_sentimentLabel updateData = b_sentimentLabel body"
    "b_mood updateData = b_mood body" "b_themes updateData = b_themes body"
    by (simp_all add: updateData_def)
  assume "patchJournalEntry ai tz now userId entryId body db = (Json r, db')"
  then have "updateJournalEntry tz now entryId updateData db = (Inr r, db')"
    unfolding patch_short_route [OF assms] updateData_def
    by (auto split: prod.splits sum.splits)
  from updateJournalEntry_Inr [OF found this] obtain entry where r: "r = Some entry"
    and set: "setEntry db updateData now existing = Some entry"
    and stored: "find (\<lambda>row. je_id row = entryId) (journalEntries db') = Some entry"
    by blast
  from setEntry_Some(5) [OF set] obtain score where
    score: "storeScore (b_sentimentScore body) = Some score"
    and kept: "je_sentimentScore entry = orKeep score (je_sentimentScore existing)"
    unfolding same by blast
  from storeScore_Some [OF score] kept
  have "je_sentimentScore entry =
          (case b_sentimentScore body of None \<Rightarrow> je_sentimentScore existing
           | Some x \<Rightarrow> Some (real_of_int (if 0 \<le> x then \<lfloor>x * 100 + 1 / 2\<rfloor>
                                           else - \<lfloor>- x * 100 + 1 / 2\<rfloor>) / 100))"
    by (simp add: orKeep_def split: option.splits)
  with r stored setEntry_Some(2-4) [OF set]
  show "\<exists>entry. r = Some entry
            \<and> find (\<lambda>row. je_id row = entryId) (journalEntries db') = Some entry
            \<and> je_sentimentLabel entry =
                (case b_sentimentLabel body of None \<Rightarrow> je_sentimentLabel existing
                 | Some l \<Rightarrow> Some l)
            \<and> je_mood entry = (case b_mood body of None \<Rightarrow> je_mood existing | Some m \<Rightarrow> Some m)
            \<and> je_themes entry =
                (case b_themes body of None \<Rightarrow> je_themes existing | Some ts \<Rightarrow> Some ts)
            \<and> je_sentimentScore entry =
                (case b_sentimentScore body of None \<Rightarrow> je_sentimentScore existing
                 | Some x \<Rightarrow> Some (real_of_int (if 0 \<le> x then \<lfloor>x * 100 + 1 / 2\<rfloor>
                                                 else - \<lfloor>- x * 100 + 1 / 2\<rfloor>) / 100))"
    by (simp add: same orKeep_def)
qed

text \<open>
  C5 (as the code has it): when the content has at most 10 words (white space includes
  the no-break space) the routes run no analysis, so the outcome does not depend on the
  provider, and they write none of \<open>sentimentScore\<close>, \<open>sentimentLabel\<close>, \<open>mood\<close> and
  \<open>themes\<close> themselves. When the request succeeds, on create the persisted entry carries
  for these fields what the request body supplied (nothing, when the body supplies
  none), and on edit each field keeps its stored value unless the request body supplies a
  new one; a supplied score is stored rounded to two decimals.
\<close>

theorem C5_short_content_runs_no_analysis:
  "(b_content body = Some c \<and> countWords c \<le> 10 \<longrightarrow>
      postJournalEntries ai tz now newId userId body db
        = postJournalEntries ai' tz now newId userId body db
      \<and> (postJournalEntries ai tz now newId userId body db = (Json created, db') \<longrightarrow>
           created \<in> set (journalEntries db')
           \<and> je_wordCount created = Some (int (countWords c))
           \<and> je_sentimentLabel created = b_sentimentLabel body
           \<and> je_mood created = b_mood body
           \<and> je_themes created = b_themes body
           \<and> je_sentimentScore created =
               (case b_sentimentScore body of None \<Rightarrow> None
                | Some x \<Rightarrow> Some (real_of_int (if 0 \<le> x then \<lfloor>x * 100 + 1 / 2\<rfloor>
                                                else - \<lfloor>- x * 100 + 1 / 2\<rfloor>) / 100))))
   \<and> (find (\<lambda>row. je_id row = entryId) (journalEntries db) = Some existing
       \<and> je_userId existing = userId \<and> b_content body = Some c \<and> countWords c \<le> 10 \<longrightarrow>
      patchJournalEntry ai tz now userId entryId body db
        = patchJournalEntry ai' tz now userId entryId body db
      \<and> (patchJournalEntry ai tz now userId entryId body db = (Json r, db') \<longrightarrow>
           (\<exists>entry. r = Some entry
              \<and> find (\<lambda>row. je_id row = entryId) (journalEntries db') = Some entry
              \<and> je_sentimentLabel entry =
                  (case b_sentimentLabel body of None \<Rightarrow> je_sentimentLabel existing
                   | Some l \<Rightarrow> Some l)
              \<and> je_mood entry =
                  (case b_mood body of None \<Rightarrow> je_mood existing | Some m \<Rightarrow> Some m)
              \<and> je_themes entry =
                  (case b_themes body of None \<Rightarrow> je_themes existing | Some ts \<Rightarrow> Some ts)
              \<and> je_sentimentScore entry =
                  (case b_sentimentScore body of None \<Rightarrow> je_sentimentScore existing
                   | Some x \<Rightarrow> Some (real_of_int (if 0 \<le> x then \<lfloor>x * 100 + 1 / 2\<rfloor>
                                                   else - \<lfloor>- x * 100 + 1 / 2\<rfloor>) / 100)))))
   \<and> countWords elevenWords = 11
   \<and> countWords (''a'' @ [char_of (9 :: nat)] @ ''b'' @ [char_of (10 :: nat), char_of (13 :: nat)]
                  @ ''c'' @ [char_of (11 :: nat), char_of (12 :: nat)] @ ''d'' @ '' '') = 4"
proof -
  have create: "b_content body = Some c \<and> countWords c \<le> 10 \<longrightarrow>
      postJournalEntries ai tz now newId userId body db
        = postJournalEntries ai' tz now newId userId body db
      \<and> (postJournalEntries ai tz now newId userId body db = (Json created, db') \<longrightarrow>
           created \<in> set (journalEntries db')
           \<and> je_wordCount created = Some (int (countWords c))
           \<and> je_sentimentLabel created = b_sentimentLabel body
           \<and> je_mood created = b_mood body
           \<and> je_themes created = b_themes body
           \<and> je_sentimentScore created =
               (case b_sentimentScore body of None \<Rightarrow> None
                | Some x \<Rightarrow> Some (real_of_int (if 0 \<le> x then \<lfloor>x * 100 + 1 / 2\<rfloor>
                                                else - \<lfloor>- x * 100 + 1 / 2\<rfloor>) / 100)))"
    (is "?H \<longrightarrow> ?A \<and> (?B \<longrightarrow> ?C)")
  proof (rule impI)
    assume ?H
    then have h: "b_content body = Some c" "countWords c \<le> 10"
      by simp_all
    have a: ?A
      by (rule post_short(1) [OF h])
    have b: "?B \<longrightarrow> ?C"
    proof (rule impI)
      assume ?B
      then show ?C
        by (rule post_short(2) [OF h])
    qed
    from a b show "?A \<and> (?B \<longrightarrow> ?C)"
      by (rule conjI)
  qed
  have edit: "find (\<lambda>row. je_id row = entryId) (journalEntries db) = Some existing
       \<and> je_userId existing = userId \<and> b_content body = Some c \<and> countWords c \<le> 10 \<longrightarrow>
      patchJournalEntry ai tz now userId entryId body db
        = patchJournalEntry ai' tz now userId entryId body db
      \<and> (patchJournalEntry ai tz now userId entryId body db = (Json r, db') \<longrightarrow>
           (\<exists>entry. r = Some entry
              \<and> find (\<lambda>row. je_id row = entryId) (journalEntries db') = Some entry
              \<and> je_sentimentLabel entry =
                  (case b_sentimentLabel body of None \<Rightarrow> je_sentimentLabel existing
                   | Some l \<Rightarrow> Some l)
              \<and> je_mood entry =
                  (case b_mood body of None \<Rightarrow> je_mood existing | Some m \<Rightarrow> Some m)
              \<and> je_themes entry =
                  (case b_themes body of None \<Rightarrow> je_themes existing | Some ts \<Rightarrow> Some ts)
              \<and> je_sentimentScore entry =
                  (case b_sentimentScore body of None \<Rightarrow> je_sentimentScore existing
                   | Some x \<Rightarrow> Some (real_of_int (if 0 \<le> x then \<lfloor>x * 100 + 1 / 2\<rfloor>
                                                   else - \<lfloor>- x * 100 + 1 / 2\<rfloor>) / 100))))"
    (is "?H \<longrightarrow> ?A \<and> (?B \<longrightarrow> ?C)")
  proof (rule impI)
    assume ?H
    then have h: "find (\<lambda>row. je_id row = entryId) (journalEntries db) = Some existing"
      "je_userId existing = userId" "b_content body = Some c" "countWords c \<le> 10"
      by simp_all
    have a: ?A
      by (rule patch_short(1) [OF h])
    have b: "?B \<longrightarrow> ?C"
    proof (rule impI)
      assume ?B
      then show ?C
        by (rule patch_short(2) [OF h])
    qed
    from a b show "?A \<and> (?B \<longrightarrow> ?C)"
      by (rule conjI)
  qed
  from create edit elevenWords_words control_words show ?thesis
    by (intro conjI)
qed

lemma short_storable:
  "storableText ''too short now''" "storableText ''calm''" "storableText ''happy''"
  "storableText ''nature''"
  by code_simp+

lemmas storage_defs =
  createJournalEntry_def updateJournalEntry_def setEntry_def storeScore_def roundHundredths_def
  storableRow_def tryUpdateUserStats_def fitsInteger_def withDefault_def orKeep_def

lemma post_shortBody:
  "\<exists>created db'. postJournalEntries downAi 0 (jan 4) ''e2'' ''u1'' shortBody analysedDb
                    = (Json created, db')"
  by (simp add: postJournalEntries_def parseInsert_def shortBody_def emptyBody_def short_words
        storage_defs short_storable longText_storable analysedDb_def analysedEntry_def
        example_defs stats_defs)

lemma patch_short_example:
  "\<exists>entry db'. patchJournalEntry downAi 0 (jan 4) ''u1'' ''e1''
                   (emptyBody\<lparr>b_content := Some ''too short now''\<rparr>) analysedDb
                 = (Json entry, db')"
  by (simp add: patchJournalEntry_def getJournalEntry_def emptyBody_def short_words
        storage_defs short_storable longText_storable analysedDb_def analysedEntry_def
        example_defs stats_defs)

theorem C5_witness:
  "(\<exists>created db'. postJournalEntries downAi 0 (jan 4) ''e2'' ''u1'' shortBody analysedDb
                     = (Json created, db')
      \<and> je_sentimentScore created = Some (19 / 50) \<and> je_sentimentLabel created = None
      \<and> je_mood created = Some ''calm'' \<and> je_themes created = None)
   \<and> (\<exists>entry db'. patchJournalEntry downAi 0 (jan 4) ''u1'' ''e1''
                   (emptyBody\<lparr>b_content := Some ''too short now''\<rparr>) analysedDb
                 = (Json (Some entry), db')
      \<and> je_sentimentScore entry = Some (4 / 5) \<and> je_sentimentLabel entry = Some ''positive''
      \<and> je_mood entry = Some ''happy'' \<and> je_themes entry = Some [''nature''])"
proof -
  let ?body = "emptyBody\<lparr>b_content := Some ''too short now''\<rparr>"
  from post_shortBody obtain created db1 where
    post: "postJournalEntries downAi 0 (jan 4) ''e2'' ''u1'' shortBody analysedDb
             = (Json created, db1)"
    by blast
  have h1: "b_content shortBody = Some ''too short now'' \<and> countWords ''too short now'' \<le> 10"
    by (simp add: short_words shortBody_def)
  from C5_short_content_runs_no_analysis
         [where body = shortBody and c = "''too short now''" and ai = downAi and tz = 0
            and now = "jan 4" and newId = "''e2''" and userId = "''u1''" and db = analysedDb
            and created = created and db' = db1]
    h1 post
  have "je_sentimentLabel created = b_sentimentLabel shortBody
        \<and> je_mood created = b_mood shortBody \<and> je_themes created = b_themes shortBody
        \<and> je_sentimentScore created =
            (case b_sentimentScore shortBody of None \<Rightarrow> None
             | Some x \<Rightarrow> Some (real_of_int (if 0 \<le> x then \<lfloor>x * 100 + 1 / 2\<rfloor>
                                             else - \<lfloor>- x * 100 + 1 / 2\<rfloor>) / 100))"
    by blast
  then have "je_sentimentScore created = Some (19 / 50) \<and> je_sentimentLabel created = None
      \<and> je_mood created = Some ''calm'' \<and> je_themes created = None"
    by (simp add: shortBody_def emptyBody_def)
  with post have created: "\<exists>created db'.
      postJournalEntries downAi 0 (jan 4) ''e2'' ''u1'' shortBody analysedDb = (Json created, db')
      \<and> je_sentimentScore created = Some (19 / 50) \<and> je_sentimentLabel created = None
      \<and> je_mood created = Some ''calm'' \<and> je_themes created = None"
    by blast
  from patch_short_example obtain r db2 where
    patch: "patchJournalEntry downAi 0 (jan 4) ''u1'' ''e1'' ?body analysedDb = (Json r, db2)"
    by blast
  have h2: "find (\<lambda>row. je_id row = ''e1'') (journalEntries analysedDb) = Some analysedEntry
            \<and> je_userId analysedEntry = ''u1''
            \<and> b_content ?body = Some ''too short now'' \<and> countWords ''too short now'' \<le> 10"
    by (simp add: short_words analysedDb_def analysedEntry_def)
  from C5_short_content_runs_no_analysis
         [where body = ?body and c = "''too short now''" and ai = downAi and tz = 0
            and now = "jan 4" and userId = "''u1''" and db = analysedDb and entryId = "''e1''"
            and existing = analysedEntry and r = r and db' = db2]
    h2 patch
  obtain entry where "r = Some entry"
    and "je_sentimentLabel entry =
           (case b_sentimentLabel ?body of None \<Rightarrow> je_sentimentLabel analysedEntry
            | Some l \<Rightarrow> Some l)"
    and "je_mood entry = (case b_mood ?body of None \<Rightarrow> je_mood analysedEntry | Some m \<Rightarrow> Some m)"
    and "je_themes entry =
           (case b_themes ?body of None \<Rightarrow> je_themes analysedEntry | Some ts \<Rightarrow> Some ts)"
    and "je_sentimentScore entry =
           (case b_sentimentScore ?body of None \<Rightarrow> je_sentimentScore analysedEntry
            | Some x \<Rightarrow> Some (real_of_int (if 0 \<le> x then \<lfloor>x * 100 + 1 / 2\<rfloor>
                                            else - \<lfloor>- x * 100 + 1 / 2\<rfloor>) / 100))"
    by blast
  then have "r = Some entry \<and> je_sentimentScore entry = Some (4 / 5)
      \<and> je_sentimentLabel entry = Some ''positive''
      \<and> je_mood entry = Some ''happy'' \<and> je_themes entry = Some [''nature'']"
    by (simp add: emptyBody_def analysedEntry_def)
  with patch have edited: "\<exists>entry db'.
      patchJournalEntry downAi 0 (jan 4) ''u1'' ''e1'' ?body analysedDb = (Json (Some entry), db')
      \<and> je_sentimentScore entry = Some (4 / 5) \<and> je_sentimentLabel entry = Some ''positive''
      \<and> je_mood entry = Some ''happy'' \<and> je_themes entry = Some [''nature'']"
    by blast
  from created edited show ?thesis
    by (rule conjI)
qed

text \<open>
  C5, counterexample to the claim as stated: an entry analysed when it had 13 words is
  edited to 3 words; the persisted entry has \<open>wordCount = 3\<close> and still its old mood and
  themes.
\<close>

theorem C5_counterexample:
  "map_option je_wordCount
     (getJournalEntry
        (snd (patchJournalEntry downAi 0 (jan 4) ''u1'' ''e1''
                (emptyBody\<lparr>b_content := Some ''too short now''\<rparr>) analysedDb)) ''e1'')
     = Some (Some 3)
   \<and> map_option je_mood
     (getJournalEntry
        (snd (patchJournalEntry downAi 0 (jan 4) ''u1'' ''e1''
                (emptyBody\<lparr>b_content := Some ''too short now''\<rparr>) analysedDb)) ''e1'')
     = Some (Some ''happy'')
   \<and> map_option je_themes
     (getJournalEntry
        (snd (patchJournalEntry downAi 0 (jan 4) ''u1'' ''e1''
                (emptyBody\<lparr>b_content := Some ''too short now''\<rparr>) analysedDb)) ''e1'')
     = Some (Some [''nature''])"
  by (simp add: patchJournalEntry_def getJournalEntry_def emptyBody_def short_words
        storage_defs short_storable longText_storable analysedDb_def analysedEntry_def
        example_defs stats_defs journalEntries_updateUserStats)

section \<open>Properties of the weekly insight aggregator\<close>

text \<open>
  C7: when an insight is stored for the user and the current week, and the number of
  completed entries of that week does not exceed its \<open>entryCount\<close> (a missing count as
  0), the route answers with that stored insight and leaves the database as it is: no
  row is deleted or created, whatever the provider would answer. A further request in
  the same week gets the same insight again.
\<close>

theorem C7_stored_insight_reused:
  assumes "getWeeklyInsight db userId (weekStartOf tz now) = Some stored"
      and "int (length (filter isCompleted
              (getJournalEntriesByDateRange db userId (weekStartOf tz now)
                 (weekEndOf (weekStartOf tz now)))))
           \<le> intOr0 (wi_entryCount stored)"
      and "weekStartOf tz now' = weekStartOf tz now"
  shows "getWeeklyInsightRoute ai tz now newId userId db = (Json (Some stored), db)
         \<and> getWeeklyInsightRoute ai' tz now' newId' userId
             (snd (getWeeklyInsightRoute ai tz now newId userId db)) = (Json (Some stored), db)"
proof -
  have first: "getWeeklyInsightRoute ai tz now newId userId db = (Json (Some stored), db)"
    using assms(1,2) by (simp add: getWeeklyInsightRoute_def Let_def)
  have "getWeeklyInsightRoute ai' tz now' newId' userId db = (Json (Some stored), db)"
    using assms by (simp add: getWeeklyInsightRoute_def Let_def)
  with first show ?thesis
    by simp
qed

theorem C7_witness:
  "getWeeklyInsightRoute downAi 0 (jan 4) ''w2'' ''u1'' insightDb = (Json (Some storedInsight), insightDb)
   \<and> getWeeklyInsightRoute downAi 0 (jan 5) ''w3'' ''u1''
        (snd (getWeeklyInsightRoute downAi 0 (jan 4) ''w2'' ''u1'' insightDb))
      = (Json (Some storedInsight), insightDb)"
proof -
  have ws: "weekStartOf 0 (jan 4) = 1703980800000" "weekStartOf 0 (jan 5) = 1703980800000"
    by (simp_all add: weekStartOf_def setHoursZero_def jan_def msPerDay_def)
  have h1: "getWeeklyInsight insightDb ''u1'' (weekStartOf 0 (jan 4)) = Some storedInsight"
    by (simp add: ws getWeeklyInsight_def insightDb_def storedInsight_def)
  have h2: "int (length (filter isCompleted
              (getJournalEntriesByDateRange insightDb ''u1'' (weekStartOf 0 (jan 4))
                 (weekEndOf (weekStartOf 0 (jan 4))))))
           \<le> intOr0 (wi_entryCount storedInsight)"
    by (simp add: ws weekEndOf_def getJournalEntriesByDateRange_def insightDb_def
          analysedEntry_def storedInsight_def intOr0_def isCompleted_def sortByCreatedAtDesc_def
          jan_def msPerDay_def)
  have h3: "weekStartOf 0 (jan 5) = weekStartOf 0 (jan 4)"
    by (simp add: ws)
  show ?thesis
    by (rule C7_stored_insight_reused
          [where ai = downAi and newId = "''w2''" and ai' = downAi and newId' = "''w3''",
           OF h1 h2 h3])
qed

end
